theory Spec2Isabelle
  imports Main
begin

section \<open>Python strings\<close>

text \<open>
  Strings are lists of ASCII characters. The helpers below are the parts of
  Python's \<^verbatim>\<open>str\<close> that \<^verbatim>\<open>assistantbackend.py\<close> calls:
  \<^verbatim>\<open>strip\<close>, \<^verbatim>\<open>lstrip('0')\<close>, \<^verbatim>\<open>lower\<close>, \<^verbatim>\<open>title\<close>,
  \<^verbatim>\<open>split('-')\<close>, \<^verbatim>\<open>', '.join\<close>, \<^verbatim>\<open>int\<close> and \<^verbatim>\<open>str\<close> of a number.
\<close>

definition isspace :: "char \<Rightarrow> bool" where
  "isspace c = (let n = (of_char c :: nat) in (9 \<le> n \<and> n \<le> 13) \<or> (28 \<le> n \<and> n \<le> 32))"

definition strip :: "string \<Rightarrow> string" where
  "strip s = rev (dropWhile isspace (rev (dropWhile isspace s)))"

definition lstrip_char :: "char \<Rightarrow> string \<Rightarrow> string" where
  "lstrip_char c s = dropWhile (\<lambda>x. x = c) s"

definition isdigit :: "char \<Rightarrow> bool" where
  "isdigit c = (48 \<le> (of_char c :: nat) \<and> (of_char c :: nat) \<le> 57)"

definition digit_val :: "char \<Rightarrow> nat" where
  "digit_val c = (of_char c :: nat) - 48"

definition digit_char :: "nat \<Rightarrow> char" where
  "digit_char n = ''0123456789'' ! n"

definition isalpha :: "char \<Rightarrow> bool" where
  "isalpha c = (let n = (of_char c :: nat) in (65 \<le> n \<and> n \<le> 90) \<or> (97 \<le> n \<and> n \<le> 122))"

definition lower_char :: "char \<Rightarrow> char" where
  "lower_char c = (let n = (of_char c :: nat) in if 65 \<le> n \<and> n \<le> 90 then char_of (n + 32) else c)"

definition upper_char :: "char \<Rightarrow> char" where
  "upper_char c = (let n = (of_char c :: nat) in if 97 \<le> n \<and> n \<le> 122 then char_of (n - 32) else c)"

definition lower :: "string \<Rightarrow> string" where
  "lower s = map lower_char s"

text \<open>\<^verbatim>\<open>str.title()\<close>: a letter that follows a non-letter is upper-cased, any other letter lower-cased.\<close>

fun title_from :: "bool \<Rightarrow> string \<Rightarrow> string" where
  "title_from prev [] = []"
| "title_from prev (c # cs) =
     (if isalpha c then (if prev then lower_char c else upper_char c) # title_from True cs
      else c # title_from False cs)"

definition title :: "string \<Rightarrow> string" where
  "title s = title_from False s"

text \<open>\<^verbatim>\<open>s.split(sep)\<close> for a one-character separator: always at least one piece.\<close>

fun split_on :: "char \<Rightarrow> string \<Rightarrow> string list" where
  "split_on sep [] = [[]]"
| "split_on sep (c # cs) =
     (if c = sep then [] # split_on sep cs
      else (case split_on sep cs of [] \<Rightarrow> [[c]] | p # ps \<Rightarrow> (c # p) # ps))"

fun join :: "string \<Rightarrow> string list \<Rightarrow> string" where
  "join sep [] = []"
| "join sep [x] = x"
| "join sep (x # y # ys) = x @ sep @ join sep (y # ys)"

text \<open>\<^verbatim>\<open>int(s)\<close> on a string of decimal digits (surrounding blanks are ignored).\<close>

definition int_of_digits :: "string \<Rightarrow> int" where
  "int_of_digits s = foldl (\<lambda>a c. 10 * a + int (digit_val c)) 0 (strip s)"

text \<open>Zero-padded decimal renderings, as \<^verbatim>\<open>strftime\<close> prints \<^verbatim>\<open>%d\<close>, \<^verbatim>\<open>%H\<close> (two digits) and \<^verbatim>\<open>%Y\<close> (four).\<close>

definition digit_at :: "int \<Rightarrow> int \<Rightarrow> char" where
  "digit_at n p = digit_char (nat (n div p mod 10))"

definition pad2 :: "int \<Rightarrow> string" where
  "pad2 n = [digit_at n 10, digit_at n 1]"

definition pad4 :: "int \<Rightarrow> string" where
  "pad4 n = [digit_at n 1000, digit_at n 100, digit_at n 10, digit_at n 1]"

text \<open>\<^verbatim>\<open>str(n)\<close> of a non-negative integer: decimal digits without padding.\<close>

fun str_nat_fuel :: "nat \<Rightarrow> nat \<Rightarrow> string" where
  "str_nat_fuel 0 n = [digit_char (n mod 10)]"
| "str_nat_fuel (Suc k) n =
     (if n < 10 then [digit_char n] else str_nat_fuel k (n div 10) @ [digit_char (n mod 10)])"

definition str_nat :: "nat \<Rightarrow> string" where
  "str_nat n = str_nat_fuel n n"

definition str_int :: "int \<Rightarrow> string" where
  "str_int i = (if i < 0 then CHR ''-'' # str_nat (nat (- i)) else str_nat (nat i))"

text \<open>An f-string prints \<^verbatim>\<open>None\<close> as the four letters \<^verbatim>\<open>None\<close>.\<close>

definition str_opt :: "string option \<Rightarrow> string" where
  "str_opt v = (case v of None \<Rightarrow> ''None'' | Some s \<Rightarrow> s)"

text \<open>Truthiness of an optional string: \<^verbatim>\<open>None\<close> and the empty string are false.\<close>

definition truthy :: "string option \<Rightarrow> bool" where
  "truthy v = (case v of None \<Rightarrow> False | Some s \<Rightarrow> s \<noteq> [])"

section \<open>Dates and times of the standard library\<close>

text \<open>
  A \<^verbatim>\<open>datetime\<close> is a record of calendar fields, as in Python. The operations are those
  of CPython's \<^verbatim>\<open>datetime\<close> module: the proleptic Gregorian ordinal of a date
  (\<^verbatim>\<open>_ymd2ord\<close>), its inverse (\<^verbatim>\<open>_ord2ymd\<close>) and the weekday.
\<close>

record date =
  year :: int
  month :: int
  day :: int

record time =
  hour :: int
  minute :: int
  second :: int
  microsecond :: int

record datetime =
  dt_date :: date
  dt_time :: time

definition combine :: "date \<Rightarrow> time \<Rightarrow> datetime" where
  "combine d t = \<lparr>dt_date = d, dt_time = t\<rparr>"

definition is_leap :: "int \<Rightarrow> bool" where
  "is_leap y = (y mod 4 = 0 \<and> (if y mod 100 = 0 then y mod 400 = 0 else True))"

definition month_length :: "bool \<Rightarrow> int \<Rightarrow> int" where
  "month_length leap m =
     (if m = 2 then (if leap then 29 else 28)
      else if m = 4 \<or> m = 6 \<or> m = 9 \<or> m = 11 then 30 else 31)"

definition days_in_month :: "int \<Rightarrow> int \<Rightarrow> int" where
  "days_in_month y m = month_length (is_leap y) m"

definition valid_date :: "date \<Rightarrow> bool" where
  "valid_date d =
     (1 \<le> year d \<and> year d \<le> 9999 \<and> 1 \<le> month d \<and> month d \<le> 12 \<and>
      1 \<le> day d \<and> day d \<le> days_in_month (year d) (month d))"

definition valid_time :: "time \<Rightarrow> bool" where
  "valid_time t =
     (0 \<le> hour t \<and> hour t < 24 \<and> 0 \<le> minute t \<and> minute t < 60 \<and>
      0 \<le> second t \<and> second t < 60 \<and> 0 \<le> microsecond t \<and> microsecond t < 1000000)"

definition days_before_year :: "int \<Rightarrow> int" where
  "days_before_year y = (y - 1) * 365 + (y - 1) div 4 - (y - 1) div 100 + (y - 1) div 400"

definition DAYS_BEFORE_MONTH :: "int \<Rightarrow> int" where
  "DAYS_BEFORE_MONTH m = sum_list (map (month_length False) [1..m - 1])"

definition days_before_month :: "int \<Rightarrow> int \<Rightarrow> int" where
  "days_before_month y m = DAYS_BEFORE_MONTH m + (if m > 2 \<and> is_leap y then 1 else 0)"

definition ymd2ord :: "date \<Rightarrow> int" where
  "ymd2ord d = days_before_year (year d) + days_before_month (year d) (month d) + day d"

definition ord2ymd :: "int \<Rightarrow> date" where
  "ord2ymd n0 =
     (let n = n0 - 1;
          n400 = n div 146097; n = n mod 146097;
          n100 = n div 36524; n = n mod 36524;
          n4 = n div 1461; n = n mod 1461;
          n1 = n div 365; n = n mod 365;
          y = n400 * 400 + 1 + n100 * 100 + n4 * 4 + n1
      in if n1 = 4 \<or> n100 = 4 then \<lparr>year = y - 1, month = 12, day = 31\<rparr>
         else
           let leapyear = (n1 = 3 \<and> (n4 \<noteq> 24 \<or> n100 = 3));
               m = (n + 50) div 32;
               preceding = DAYS_BEFORE_MONTH m + (if m > 2 \<and> leapyear then 1 else 0)
           in if preceding > n
              then \<lparr>year = y, month = m - 1,
                     day = n - (preceding - (month_length False (m - 1) +
                                (if m - 1 = 2 \<and> leapyear then 1 else 0))) + 1\<rparr>
              else \<lparr>year = y, month = m, day = n - preceding + 1\<rparr>)"

text \<open>\<^verbatim>\<open>date.weekday()\<close>: Monday is 0.\<close>

definition weekday_of_ordinal :: "int \<Rightarrow> nat" where
  "weekday_of_ordinal n = nat ((n + 6) mod 7)"

definition weekday :: "date \<Rightarrow> nat" where
  "weekday d = weekday_of_ordinal (ymd2ord d)"

definition day_names :: "string list" where
  "day_names = [''Monday'', ''Tuesday'', ''Wednesday'', ''Thursday'', ''Friday'',
                ''Saturday'', ''Sunday'']"

definition month_names :: "string list" where
  "month_names = [''January'', ''February'', ''March'', ''April'', ''May'', ''June'', ''July'',
                  ''August'', ''September'', ''October'', ''November'', ''December'']"

definition month_abbrs :: "string list" where
  "month_abbrs = map (take 3) month_names"

text \<open>
  Order of \<^verbatim>\<open>time\<close> objects: lexicographic on (hour, minute, second, microsecond),
  which for valid times is the order of the microsecond of the day.
\<close>

definition time_key :: "time \<Rightarrow> int" where
  "time_key t = ((hour t * 60 + minute t) * 60 + second t) * 1000000 + microsecond t"

definition minute_of_day :: "time \<Rightarrow> int" where
  "minute_of_day t = hour t * 60 + minute t"

section \<open>strftime and strptime\<close>

text \<open>
  \<^verbatim>\<open>strftime\<close> for the directives the program uses (C locale): \<^verbatim>\<open>%Y\<close> as four
  digits, \<^verbatim>\<open>%m %d %H %I %M\<close> as two digits, \<^verbatim>\<open>%B %b %A\<close> as names and \<^verbatim>\<open>%p\<close> as
  \<^verbatim>\<open>AM\<close> or \<^verbatim>\<open>PM\<close>. Any other character of the format is copied.
\<close>

definition hour12 :: "int \<Rightarrow> int" where
  "hour12 h = (if h mod 12 = 0 then 12 else h mod 12)"

definition directive_text :: "char \<Rightarrow> datetime \<Rightarrow> string" where
  "directive_text c dt =
     (let d = dt_date dt; t = dt_time dt in
      if c = CHR ''Y'' then pad4 (year d)
      else if c = CHR ''m'' then pad2 (month d)
      else if c = CHR ''d'' then pad2 (day d)
      else if c = CHR ''B'' then month_names ! nat (month d - 1)
      else if c = CHR ''b'' then month_abbrs ! nat (month d - 1)
      else if c = CHR ''A'' then day_names ! weekday d
      else if c = CHR ''H'' then pad2 (hour t)
      else if c = CHR ''I'' then pad2 (hour12 (hour t))
      else if c = CHR ''M'' then pad2 (minute t)
      else if c = CHR ''p'' then (if hour t < 12 then ''AM'' else ''PM'')
      else [CHR ''%'', c])"

fun strftime :: "string \<Rightarrow> datetime \<Rightarrow> string" where
  "strftime [] dt = []"
| "strftime [c] dt = [c]"
| "strftime (c # d # fs) dt =
     (if c = CHR ''%'' then directive_text d dt @ strftime fs dt
      else c # strftime (d # fs) dt)"

text \<open>
  \<^verbatim>\<open>strptime\<close> turns the format into a regular expression (module \<^verbatim>\<open>_strptime\<close>):
  each directive becomes a named group, an alternation of character-class sequences;
  a run of blanks in the format becomes \<^verbatim>\<open>\s+\<close>; any other character stands for
  itself. The expression is matched at the start of the text, ignoring case, with the
  backtracking order of \<^verbatim>\<open>re\<close>: the alternatives of a group in the order written, the
  blanks of \<^verbatim>\<open>\s+\<close> longest first. The first match counts; text left over after it is
  the error "unconverted data remains".
\<close>

datatype cclass = Digits nat nat | Letter char

fun cmatch :: "cclass \<Rightarrow> char \<Rightarrow> bool" where
  "cmatch (Digits lo hi) c = (isdigit c \<and> lo \<le> digit_val c \<and> digit_val c \<le> hi)"
| "cmatch (Letter a) c = (lower_char c = lower_char a)"

fun match_seq :: "cclass list \<Rightarrow> string \<Rightarrow> (string \<times> string) option" where
  "match_seq [] s = Some ([], s)"
| "match_seq (k # ks) [] = None"
| "match_seq (k # ks) (c # cs) =
     (if cmatch k c
      then (case match_seq ks cs of None \<Rightarrow> None | Some (m, r) \<Rightarrow> Some (c # m, r))
      else None)"

definition match_alts :: "cclass list list \<Rightarrow> string \<Rightarrow> (string \<times> string) list" where
  "match_alts alts s = List.map_filter (\<lambda>a. match_seq a s) alts"

datatype directive = Dir_Y | Dir_m | Dir_d | Dir_B | Dir_b | Dir_H | Dir_I | Dir_M | Dir_p

datatype item = Group directive | Literal char | Whitespace

definition word_alts :: "string list \<Rightarrow> cclass list list" where
  "word_alts ws = map (map Letter) ws"

text \<open>
  The groups of \<^verbatim>\<open>TimeRE\<close>. The month names are sorted by decreasing length, as
  \<^verbatim>\<open>__seqToRE\<close> does.
\<close>

fun directive_regex :: "directive \<Rightarrow> cclass list list" where
  "directive_regex Dir_Y = [[Digits 0 9, Digits 0 9, Digits 0 9, Digits 0 9]]"
| "directive_regex Dir_m = [[Digits 1 1, Digits 0 2], [Digits 0 0, Digits 1 9], [Digits 1 9]]"
| "directive_regex Dir_d =
     [[Digits 3 3, Digits 0 1], [Digits 1 2, Digits 0 9], [Digits 0 0, Digits 1 9],
      [Digits 1 9], [Letter CHR '' '', Digits 1 9]]"
| "directive_regex Dir_H = [[Digits 2 2, Digits 0 3], [Digits 0 1, Digits 0 9], [Digits 0 9]]"
| "directive_regex Dir_I = [[Digits 1 1, Digits 0 2], [Digits 0 0, Digits 1 9], [Digits 1 9]]"
| "directive_regex Dir_M = [[Digits 0 5, Digits 0 9], [Digits 0 9]]"
| "directive_regex Dir_B =
     word_alts [''september'', ''february'', ''november'', ''december'', ''january'', ''october'',
                ''august'', ''march'', ''april'', ''june'', ''july'', ''may'']"
| "directive_regex Dir_b =
     word_alts [''jan'', ''feb'', ''mar'', ''apr'', ''may'', ''jun'', ''jul'', ''aug'', ''sep'',
                ''oct'', ''nov'', ''dec'']"
| "directive_regex Dir_p = word_alts [''am'', ''pm'']"

definition directive_of_char :: "char \<Rightarrow> directive option" where
  "directive_of_char c =
     (if c = CHR ''Y'' then Some Dir_Y else if c = CHR ''m'' then Some Dir_m
      else if c = CHR ''d'' then Some Dir_d else if c = CHR ''B'' then Some Dir_B
      else if c = CHR ''b'' then Some Dir_b else if c = CHR ''H'' then Some Dir_H
      else if c = CHR ''I'' then Some Dir_I else if c = CHR ''M'' then Some Dir_M
      else if c = CHR ''p'' then Some Dir_p else None)"

text \<open>The format as a list of items; \<^verbatim>\<open>None\<close> is the error of a directive outside the table.\<close>

fun compile_format :: "string \<Rightarrow> item list option" where
  "compile_format [] = Some []"
| "compile_format [c] = (if c = CHR ''%'' then None else if isspace c then Some [Whitespace] else Some [Literal c])"
| "compile_format (c # d # fs) =
     (if c = CHR ''%''
      then (case directive_of_char d of None \<Rightarrow> None
            | Some dir \<Rightarrow> map_option (\<lambda>its. Group dir # its) (compile_format fs))
      else if isspace c
      then (if isspace d then compile_format (d # fs)
            else map_option (\<lambda>its. Whitespace # its) (compile_format (d # fs)))
      else map_option (\<lambda>its. Literal c # its) (compile_format (d # fs)))"

fun candidates :: "item \<Rightarrow> string \<Rightarrow> (string \<times> string) list" where
  "candidates (Group d) s = match_alts (directive_regex d) s"
| "candidates (Literal a) s = match_alts [[Letter a]] s"
| "candidates Whitespace s =
     map (\<lambda>k. (take k s, drop k s)) (rev [1..<Suc (length (takeWhile isspace s))])"

type_synonym groups = "(directive \<times> string) list"

definition record_group :: "item \<Rightarrow> string \<Rightarrow> groups \<Rightarrow> groups" where
  "record_group it m gs = (case it of Group d \<Rightarrow> (d, m) # gs | _ \<Rightarrow> gs)"

fun re_match :: "item list \<Rightarrow> string \<Rightarrow> (groups \<times> string) list" where
  "re_match [] s = [([], s)]"
| "re_match (it # its) s =
     concat (map (\<lambda>(m, r). map (\<lambda>(gs, r'). (record_group it m gs, r')) (re_match its r))
                 (candidates it s))"

text \<open>
  The values of the groups, as \<^verbatim>\<open>_strptime\<close> converts them: the year defaults to 1900, month
  and day to 1, the time to midnight; a 12-hour clock reading is combined with \<^verbatim>\<open>%p\<close>. A
  date that does not exist (February 30, year 0) is a \<^verbatim>\<open>ValueError\<close>.
\<close>

datatype error = ValueError | AttributeError | IntegrityError

fun index_of :: "string \<Rightarrow> string list \<Rightarrow> nat" where
  "index_of x [] = 0"
| "index_of x (y # ys) = (if x = y then 0 else Suc (index_of x ys))"

definition group_year :: "groups \<Rightarrow> int" where
  "group_year gs = (case map_of gs Dir_Y of Some s \<Rightarrow> int_of_digits s | None \<Rightarrow> 1900)"

definition group_month :: "groups \<Rightarrow> int" where
  "group_month gs =
     (case map_of gs Dir_m of Some s \<Rightarrow> int_of_digits s
      | None \<Rightarrow>
        (case map_of gs Dir_B of Some s \<Rightarrow> int (Suc (index_of (lower s) (map lower month_names)))
         | None \<Rightarrow>
           (case map_of gs Dir_b of Some s \<Rightarrow> int (Suc (index_of (lower s) (map lower month_abbrs)))
            | None \<Rightarrow> 1)))"

definition group_day :: "groups \<Rightarrow> int" where
  "group_day gs = (case map_of gs Dir_d of Some s \<Rightarrow> int_of_digits s | None \<Rightarrow> 1)"

definition group_hour :: "groups \<Rightarrow> int" where
  "group_hour gs =
     (case map_of gs Dir_H of Some s \<Rightarrow> int_of_digits s
      | None \<Rightarrow>
        (case map_of gs Dir_I of None \<Rightarrow> 0
         | Some s \<Rightarrow>
           (let h = int_of_digits s;
                ampm = (case map_of gs Dir_p of None \<Rightarrow> [] | Some a \<Rightarrow> lower a)
            in if ampm = [] \<or> ampm = ''am'' then (if h = 12 then 0 else h)
               else (if h = 12 then h else h + 12))))"

definition group_minute :: "groups \<Rightarrow> int" where
  "group_minute gs = (case map_of gs Dir_M of Some s \<Rightarrow> int_of_digits s | None \<Rightarrow> 0)"

definition strptime :: "string \<Rightarrow> string \<Rightarrow> error + datetime" where
  "strptime data_string format =
     (case compile_format format of None \<Rightarrow> Inl ValueError
      | Some items \<Rightarrow>
        (case re_match items data_string of [] \<Rightarrow> Inl ValueError
         | (gs, rest) # _ \<Rightarrow>
           if rest \<noteq> [] then Inl ValueError
           else
             let d = \<lparr>year = group_year gs, month = group_month gs, day = group_day gs\<rparr>;
                 t = \<lparr>hour = group_hour gs, minute = group_minute gs, second = 0,
                      microsecond = 0\<rparr>
             in if valid_date d then Inr (combine d t) else Inl ValueError))"

section \<open>AppointmentPlugin._parse_datetime\<close>

definition date_formats :: "string list" where
  "date_formats = [''%Y-%m-%d'', ''%m/%d/%Y'', ''%m-%d-%Y'', ''%B %d, %Y'', ''%b %d, %Y'']"

definition time_formats :: "string list" where
  "time_formats = [''%H:%M'', ''%I:%M %p'', ''%I:%M%p'', ''%I %p'', ''%I%p'']"

text \<open>The loop over the formats: the first format that parses wins, a \<^verbatim>\<open>ValueError\<close> moves on.\<close>

fun first_parse :: "string \<Rightarrow> string list \<Rightarrow> datetime option" where
  "first_parse s [] = None"
| "first_parse s (fmt # fmts) =
     (case strptime s fmt of Inr dt \<Rightarrow> Some dt | Inl e \<Rightarrow> first_parse s fmts)"

text \<open>
  The request's \<^verbatim>\<open>date\<close> and \<^verbatim>\<open>time\<close> may be absent (\<^verbatim>\<open>None\<close>): \<^verbatim>\<open>.strip()\<close> then
  raises \<^verbatim>\<open>AttributeError\<close>. The date is parsed first.
\<close>

definition parse_datetime :: "string option \<Rightarrow> string option \<Rightarrow> error + datetime" where
  "parse_datetime date_str time_str =
     (case date_str of None \<Rightarrow> Inl AttributeError
      | Some ds \<Rightarrow>
        (case first_parse (strip ds) date_formats of None \<Rightarrow> Inl ValueError
         | Some parsed_date \<Rightarrow>
           (case time_str of None \<Rightarrow> Inl AttributeError
            | Some ts \<Rightarrow>
              (case first_parse (strip ts) time_formats of None \<Rightarrow> Inl ValueError
               | Some parsed_time \<Rightarrow>
                 Inr (combine (dt_date parsed_date) (dt_time parsed_time))))))"

section \<open>BusinessConfig\<close>

text \<open>
  The parts of a business's configuration the handlers read: the display name, the
  weekly hours table (lower-case day name to a string such as \<^verbatim>\<open>09:00-17:00\<close> or
  \<^verbatim>\<open>closed\<close>; a day may be missing) and the catalogue of appointment types. A missing
  \<^verbatim>\<open>name\<close> or \<^verbatim>\<open>duration\<close> of an appointment type is \<^verbatim>\<open>None\<close>; the code supplies the
  defaults.
\<close>

record apt_type =
  at_name :: "string option"
  at_duration :: "int option"

record config =
  business_name :: "string option"
  business_hours :: "string \<Rightarrow> string option"
  appointment_types :: "apt_type list"

text \<open>
  The \<^verbatim>\<open>try\<close> block shared by the three readers of the hours table:
  \<^verbatim>\<open>open, close = hours.split('-')\<close>, then both halves through
  \<^verbatim>\<open>strptime(x.strip(), '%H:%M')\<close>. \<^verbatim>\<open>None\<close> is any exception raised in it.
\<close>

definition parse_hours :: "string \<Rightarrow> (time \<times> time) option" where
  "parse_hours hours =
     (case split_on CHR ''-'' hours of
        [open_time, close_time] \<Rightarrow>
          (case strptime (strip open_time) ''%H:%M'' of Inl e \<Rightarrow> None
           | Inr open_hour \<Rightarrow>
             (case strptime (strip close_time) ''%H:%M'' of Inl e \<Rightarrow> None
              | Inr close_hour \<Rightarrow> Some (dt_time open_hour, dt_time close_hour)))
      | _ \<Rightarrow> None)"

text \<open>\<^verbatim>\<open>not hours or hours == 'closed'\<close>\<close>

definition closed_entry :: "string option \<Rightarrow> bool" where
  "closed_entry hours = (case hours of None \<Rightarrow> True | Some h \<Rightarrow> h = [] \<or> h = ''closed'')"

section \<open>AfterHoursHandler\<close>

definition days :: "string list" where
  "days = [''monday'', ''tuesday'', ''wednesday'', ''thursday'', ''friday'', ''saturday'',
           ''sunday'']"

definition display_name :: "config \<Rightarrow> string" where
  "display_name cfg = (case business_name cfg of None \<Rightarrow> ''us'' | Some n \<Rightarrow> n)"

text \<open>\<^verbatim>\<open>t.strftime('%I:%M %p').lstrip('0')\<close> of a time object.\<close>

definition clock_text :: "time \<Rightarrow> string" where
  "clock_text t =
     lstrip_char CHR ''0''
       (strftime ''%I:%M %p'' (combine \<lparr>year = 1900, month = 1, day = 1\<rparr> t))"

text \<open>\<^verbatim>\<open>hours.split('-')[0].strip()\<close> parsed as \<^verbatim>\<open>%H:%M\<close>.\<close>

definition opening_of :: "string \<Rightarrow> time option" where
  "opening_of hours =
     (case split_on CHR ''-'' hours of [] \<Rightarrow> None
      | x # xs \<Rightarrow> (case strptime (strip x) ''%H:%M'' of Inl e \<Rightarrow> None
                   | Inr t \<Rightarrow> Some (dt_time t)))"

fun next_open_scan :: "config \<Rightarrow> nat \<Rightarrow> nat list \<Rightarrow> string" where
  "next_open_scan cfg current_day_index [] = ''during our business hours''"
| "next_open_scan cfg current_day_index (i # rest) =
     (let next_day = days ! ((current_day_index + i) mod 7);
          hours = business_hours cfg next_day
      in case hours of None \<Rightarrow> next_open_scan cfg current_day_index rest
         | Some h \<Rightarrow>
           if h = [] \<or> h = ''closed'' then next_open_scan cfg current_day_index rest
           else (case opening_of h of None \<Rightarrow> title next_day
                 | Some open_hour \<Rightarrow> title next_day @ '' at '' @ clock_text open_hour))"

definition get_next_open_day :: "config \<Rightarrow> datetime \<Rightarrow> string" where
  "get_next_open_day cfg now = next_open_scan cfg (weekday (dt_date now)) [1..<8]"

definition get_next_open_time :: "config \<Rightarrow> datetime \<Rightarrow> string" where
  "get_next_open_time cfg now =
     (let tomorrow = days ! ((weekday (dt_date now) + 1) mod 7);
          tomorrow_hours = business_hours cfg tomorrow
      in case tomorrow_hours of None \<Rightarrow> get_next_open_day cfg now
         | Some h \<Rightarrow>
           if h = [] \<or> h = ''closed'' then get_next_open_day cfg now
           else (case opening_of h of None \<Rightarrow> ''tomorrow''
                 | Some open_hour \<Rightarrow> ''tomorrow at '' @ clock_text open_hour))"

definition get_closed_message :: "config \<Rightarrow> datetime \<Rightarrow> string \<Rightarrow> string" where
  "get_closed_message cfg now day_name =
     ''Thank you for calling '' @ display_name cfg @ ''! We're closed on '' @ title day_name @
     ''s. We'll be open '' @ get_next_open_day cfg now @
     ''. I'm happy to take a message or schedule an appointment for when we're open. How can I help you?''"

definition get_before_open_message :: "config \<Rightarrow> time \<Rightarrow> string" where
  "get_before_open_message cfg open_time =
     ''Thank you for calling '' @ display_name cfg @ ''! Our office opens at '' @
     clock_text open_time @
     ''. I'm here to help right now though - I can schedule an appointment, answer questions, or take a message. What can I do for you?''"

definition get_after_close_message :: "config \<Rightarrow> datetime \<Rightarrow> string" where
  "get_after_close_message cfg now =
     ''Thank you for calling '' @ display_name cfg @
     ''! Our office is currently closed for the day. We'll be open '' @
     get_next_open_time cfg now @
     ''. I'm here to help - I can schedule an appointment, answer questions, or take a message. How can I assist you?''"

text \<open>
  \<^verbatim>\<open>is_after_hours\<close>, with the clock reading \<^verbatim>\<open>datetime.now()\<close> as the argument
  \<open>now\<close>. The result is the pair (is after hours, message).
\<close>

definition is_after_hours :: "config \<Rightarrow> datetime \<Rightarrow> bool \<times> string" where
  "is_after_hours cfg now =
     (let current_day = lower (strftime ''%A'' now);
          current_time = dt_time now;
          hours_today = business_hours cfg current_day
      in if closed_entry hours_today then (True, get_closed_message cfg now current_day)
         else
           (case parse_hours (case hours_today of None \<Rightarrow> [] | Some h \<Rightarrow> h) of
              None \<Rightarrow> (False, [])
            | Some (open_time, close_time) \<Rightarrow>
                if time_key current_time < time_key open_time
                then (True, get_before_open_message cfg open_time)
                else if time_key current_time > time_key close_time
                then (True, get_after_close_message cfg now)
                else (False, [])))"

section \<open>The database\<close>

text \<open>
  An instant of the scheduling code is a \<^verbatim>\<open>datetime\<close> with whole minutes; it is modelled
  by its number of minutes since the start of ordinal day 0, so \<open>t div 1440\<close> is the
  proleptic Gregorian ordinal of its date and \<open>t mod 1440\<close> its minute of the day.
  \<^verbatim>\<open>timedelta(minutes=n)\<close> is the integer \<open>n\<close>. The columns \<^verbatim>\<open>start_time\<close> and
  \<^verbatim>\<open>end_time\<close> hold \<^verbatim>\<open>isoformat()\<close> strings, which SQLite compares as text; for
  four-digit years that is the order of the instants. The range limit of
  \<^verbatim>\<open>datetime\<close> (year 9999) is outside this model.
\<close>

type_synonym instant = int

definition instant_of :: "datetime \<Rightarrow> instant" where
  "instant_of dt = ymd2ord (dt_date dt) * 1440 + minute_of_day (dt_time dt)"

definition datetime_of :: "instant \<Rightarrow> datetime" where
  "datetime_of t =
     combine (ord2ymd (t div 1440))
       \<lparr>hour = t mod 1440 div 60, minute = t mod 1440 mod 60, second = 0, microsecond = 0\<rparr>"

record appointment =
  apt_id :: nat
  business_id :: string
  customer_name :: "string option"
  phone :: "string option"
  email :: "string option"
  start_time :: instant
  end_time :: instant
  service :: "string option"
  apt_notes :: "string option"
  status :: string

record order_row =
  order_id :: nat
  order_business_id :: string
  order_customer_name :: "string option"
  order_phone :: "string option"
  order_items :: "string option"
  total :: int
  pickup_time :: "string option"
  delivery_address :: "string option"
  special_instructions :: "string option"

record message_row =
  message_id :: nat
  message_business_id :: string
  caller_name :: "string option"
  message_phone :: "string option"
  message_text :: "string option"
  priority :: "string option"

text \<open>The SQL statements a handler sends, in the order sent.\<close>

datatype statement =
    Select_conflict "string option" instant instant
  | Insert_appointment nat
  | Select_customer string string
  | Delete_appointment nat
  | Insert_order nat
  | Insert_message nat

text \<open>
  The file \<^verbatim>\<open>appointments.db\<close>: three tables in row-id order, the \<^verbatim>\<open>AUTOINCREMENT\<close>
  counters, and the journal of statements executed so far.
\<close>

record db =
  appointments :: "appointment list"
  appointments_seq :: nat
  orders :: "order_row list"
  orders_seq :: nat
  messages :: "message_row list"
  messages_seq :: nat
  journal :: "statement list"

definition init_database :: db where
  "init_database =
     \<lparr>appointments = [], appointments_seq = 0, orders = [], orders_seq = 0, messages = [],
      messages_seq = 0, journal = []\<rparr>"

definition executed :: "statement \<Rightarrow> db \<Rightarrow> db" where
  "executed q st = st\<lparr>journal := journal st @ [q]\<rparr>"

section \<open>AppointmentPlugin\<close>

text \<open>The handlers' answer: the keys a result dictionary can hold.\<close>

record alternative =
  alt_datetime :: instant
  formatted :: string

record result =
  success :: bool
  message :: string
  alternatives :: "alternative list option"
  action :: "string option"
  appointment_id :: "string option"

definition plain_result :: "bool \<Rightarrow> string \<Rightarrow> result" where
  "plain_result ok msg =
     \<lparr>success = ok, message = msg, alternatives = None, action = None, appointment_id = None\<rparr>"

text \<open>The dictionary \<^verbatim>\<open>appointment_data\<close> built from the request.\<close>

record appointment_data =
  ad_customer_name :: "string option"
  ad_phone :: "string option"
  ad_email :: "string option"
  ad_date :: "string option"
  ad_time :: "string option"
  ad_service :: "string option"
  ad_notes :: "string option"
  ad_business_id :: "string option"

text \<open>
  \<^verbatim>\<open>_get_service_duration\<close>: \<^verbatim>\<open>service.lower()\<close> is evaluated for each catalogue entry
  reached, and raises \<^verbatim>\<open>AttributeError\<close> when the service is \<^verbatim>\<open>None\<close>.
\<close>

fun get_service_duration :: "apt_type list \<Rightarrow> string option \<Rightarrow> error + int" where
  "get_service_duration [] service_name = Inr 30"
| "get_service_duration (apt # rest) service_name =
     (case service_name of None \<Rightarrow> Inl AttributeError
      | Some s \<Rightarrow>
        if lower (case at_name apt of None \<Rightarrow> [] | Some n \<Rightarrow> n) = lower s
        then Inr (case at_duration apt of None \<Rightarrow> 30 | Some d \<Rightarrow> d)
        else get_service_duration rest service_name)"

text \<open>The \<^verbatim>\<open>WHERE\<close> clause of \<^verbatim>\<open>_check_availability\<close>, on one row.\<close>

definition conflicts :: "string option \<Rightarrow> instant \<Rightarrow> instant \<Rightarrow> appointment \<Rightarrow> bool" where
  "conflicts bid s e r =
     (Some (business_id r) = bid \<and> status r = ''confirmed'' \<and>
      ((start_time r < e \<and> end_time r > s) \<or>
       (start_time r < e \<and> end_time r > e) \<or>
       (start_time r \<ge> s \<and> end_time r \<le> e)))"

definition check_availability ::
  "instant \<Rightarrow> int \<Rightarrow> string option \<Rightarrow> db \<Rightarrow> (bool \<times> string) \<times> db" where
  "check_availability start duration bid st =
     (let end_instant = start + duration;
          st1 = executed (Select_conflict bid start end_instant) st
      in case find (conflicts bid start end_instant) (appointments st) of
           Some conflict \<Rightarrow> ((False, ''I'm sorry, that time is already booked.''), st1)
         | None \<Rightarrow> ((True, []), st1))"

definition day_name_of :: "int \<Rightarrow> string" where
  "day_name_of ordinal = lower (day_names ! weekday_of_ordinal ordinal)"

definition is_within_business_hours :: "config \<Rightarrow> instant \<Rightarrow> bool" where
  "is_within_business_hours cfg appointment_datetime =
     (let hours = business_hours cfg (day_name_of (appointment_datetime div 1440))
      in if closed_entry hours then False
         else
           (case parse_hours (case hours of None \<Rightarrow> [] | Some h \<Rightarrow> h) of
              None \<Rightarrow> True
            | Some (open_hour, close_hour) \<Rightarrow>
                minute_of_day open_hour \<le> appointment_datetime mod 1440 \<and>
                appointment_datetime mod 1440 \<le> minute_of_day close_hour))"

definition get_business_hours_text :: string where
  "get_business_hours_text = ''Monday-Friday 9am-5pm, Saturday 9am-2pm''"

definition format_datetime :: "instant \<Rightarrow> string" where
  "format_datetime t = strftime ''%A, %B %d at %I:%M %p'' (datetime_of t)"

definition candidate :: "instant \<Rightarrow> alternative" where
  "candidate t = \<lparr>alt_datetime = t, formatted = format_datetime t\<rparr>"

text \<open>
  The \<^verbatim>\<open>while\<close> loop of \<^verbatim>\<open>_find_alternative_times\<close> over one day. The flag of the result
  says that the function returned from inside the loop (five alternatives collected).
\<close>

function slots_loop ::
  "int \<Rightarrow> string option \<Rightarrow> instant \<Rightarrow> instant \<Rightarrow> alternative list \<Rightarrow> db \<Rightarrow>
   alternative list \<times> bool \<times> db" where
  "slots_loop duration bid end_of_day current_time alts st =
     (if current_time + duration \<le> end_of_day
      then
        (let r = check_availability current_time duration bid st
         in if fst (fst r)
            then (if length (alts @ [candidate current_time]) \<ge> 5
                  then (alts @ [candidate current_time], True, snd r)
                  else slots_loop duration bid end_of_day (current_time + 30)
                         (alts @ [candidate current_time]) (snd r))
            else slots_loop duration bid end_of_day (current_time + 30) alts (snd r))
      else (alts, False, st))"
  by pat_completeness auto
termination
  by (relation "measure (\<lambda>(duration, bid, end_of_day, current_time, alts, st).
                  nat (end_of_day - duration - current_time + 1))") auto

text \<open>The \<^verbatim>\<open>for day_offset in range(7)\<close> loop; \<open>check_date\<close> is the ordinal of the requested date.\<close>

fun days_loop ::
  "config \<Rightarrow> int \<Rightarrow> int \<Rightarrow> string option \<Rightarrow> nat list \<Rightarrow> alternative list \<Rightarrow> db \<Rightarrow>
   alternative list \<times> db" where
  "days_loop cfg check_date duration bid [] alts st = (alts, st)"
| "days_loop cfg check_date duration bid (day_offset # rest) alts st =
     (let current_date = check_date + int day_offset;
          hours = business_hours cfg (day_name_of current_date)
      in if closed_entry hours then days_loop cfg check_date duration bid rest alts st
         else
           (case parse_hours (case hours of None \<Rightarrow> [] | Some h \<Rightarrow> h) of
              None \<Rightarrow> days_loop cfg check_date duration bid rest alts st
            | Some (open_hour, close_hour) \<Rightarrow>
                (let r = slots_loop duration bid
                           (current_date * 1440 + minute_of_day close_hour)
                           (current_date * 1440 + minute_of_day open_hour) alts st
                 in if fst (snd r) then (fst r, snd (snd r))
                    else days_loop cfg check_date duration bid rest (fst r) (snd (snd r)))))"

definition find_alternative_times ::
  "config \<Rightarrow> instant \<Rightarrow> int \<Rightarrow> string option \<Rightarrow> db \<Rightarrow> alternative list \<times> db" where
  "find_alternative_times cfg requested duration bid st =
     days_loop cfg (requested div 1440) duration bid [0..<7] [] st"

text \<open>
  \<^verbatim>\<open>_book_appointment\<close>. The column \<^verbatim>\<open>business_id\<close> is \<^verbatim>\<open>NOT NULL\<close>: inserting \<^verbatim>\<open>None\<close>
  raises \<^verbatim>\<open>IntegrityError\<close> and stores nothing. The new row takes the default status
  \<^verbatim>\<open>confirmed\<close> and the next \<^verbatim>\<open>AUTOINCREMENT\<close> id.
\<close>

definition book_appointment ::
  "appointment_data \<Rightarrow> instant \<Rightarrow> int \<Rightarrow> db \<Rightarrow> (error + (bool \<times> string)) \<times> db" where
  "book_appointment data start duration st =
     (case ad_business_id data of None \<Rightarrow> (Inl IntegrityError, st)
      | Some b \<Rightarrow>
        (let new_id = Suc (appointments_seq st);
             row = \<lparr>apt_id = new_id, business_id = b, customer_name = ad_customer_name data,
                    phone = ad_phone data, email = ad_email data, start_time = start,
                    end_time = start + duration, service = ad_service data,
                    apt_notes = ad_notes data, status = ''confirmed''\<rparr>
         in (Inr (True, ''apt_'' @ str_nat new_id),
             executed (Insert_appointment new_id)
               (st\<lparr>appointments := appointments st @ [row], appointments_seq := new_id\<rparr>))))"

definition reprompt_message :: string where
  "reprompt_message =
     ''I couldn't understand that date or time. Could you please repeat it? For example, 'November 5th at 2:30 PM'?''"

definition closed_message :: string where
  "closed_message =
     ''I'm sorry, we're not open at that time. Our hours are '' @ get_business_hours_text @
     ''. Would you like to schedule during our open hours?''"

definition suggestion_message :: "string \<Rightarrow> alternative list \<Rightarrow> string" where
  "suggestion_message conflict_message alts =
     (if alts \<noteq> []
      then conflict_message @ '' I have these times available: '' @
           join '', '' (map formatted (take 3 alts)) @ ''. Which works better for you?''
      else conflict_message @
           '' Let me take your information and we'll call you back to find a time that works.'')"

definition booked_message :: "string option \<Rightarrow> instant \<Rightarrow> string" where
  "booked_message service_name t =
     ''Perfect! I've scheduled your '' @ str_opt service_name @ '' for '' @ format_datetime t @
     ''. We'll see you then!''"

definition trouble_message :: string where
  "trouble_message =
     ''I'm having trouble booking that appointment. Let me take your information and someone will call you back to confirm.''"

text \<open>
  \<^verbatim>\<open>AppointmentPlugin.process\<close>. \<open>Inl\<close> is an exception that leaves the handler;
  \<open>Inr\<close> is the dictionary it returns. The notification only prints.
\<close>

definition appointment_process ::
  "config \<Rightarrow> appointment_data \<Rightarrow> db \<Rightarrow> (error + result) \<times> db" where
  "appointment_process cfg data st =
     (case parse_datetime (ad_date data) (ad_time data) of
        Inl e \<Rightarrow> (Inr (plain_result False reprompt_message), st)
      | Inr parsed \<Rightarrow>
        (let appointment_datetime = instant_of parsed in
         case get_service_duration (appointment_types cfg) (ad_service data) of
           Inl e \<Rightarrow> (Inl e, st)
         | Inr service_duration \<Rightarrow>
           if \<not> is_within_business_hours cfg appointment_datetime
           then (Inr (plain_result False closed_message), st)
           else
             (let checked = check_availability appointment_datetime service_duration
                              (ad_business_id data) st
              in if \<not> fst (fst checked)
                 then
                   (let found = find_alternative_times cfg appointment_datetime
                                  service_duration (ad_business_id data) (snd checked)
                    in (Inr \<lparr>success = False,
                             message = suggestion_message (snd (fst checked)) (fst found),
                             alternatives = Some (fst found),
                             action = Some ''suggest_alternatives'',
                             appointment_id = None\<rparr>,
                        snd found))
                 else
                   (case book_appointment data appointment_datetime service_duration
                           (snd checked) of
                      (Inl e, st2) \<Rightarrow> (Inl e, st2)
                    | (Inr (ok, new_id), st2) \<Rightarrow>
                        if ok
                        then (Inr \<lparr>success = True,
                                   message = booked_message (ad_service data)
                                               appointment_datetime,
                                   alternatives = None, action = None,
                                   appointment_id = Some new_id\<rparr>, st2)
                        else (Inr (plain_result False trouble_message), st2)))))"

section \<open>CancellationPlugin\<close>

record cancellation_data =
  cd_customer_name :: "string option"
  cd_phone :: "string option"
  cd_start_time :: "string option"

text \<open>The row the \<^verbatim>\<open>SELECT\<close> of the cancellation matches: name and phone equal, any business.\<close>

definition same_customer :: "string \<Rightarrow> string \<Rightarrow> appointment \<Rightarrow> bool" where
  "same_customer name_given phone_given r =
     (customer_name r = Some name_given \<and> phone r = Some phone_given)"

definition cancellation_process :: "cancellation_data \<Rightarrow> db \<Rightarrow> result \<times> db" where
  "cancellation_process data st =
     (if \<not> (truthy (cd_customer_name data) \<and> truthy (cd_phone data))
      then (plain_result False ''Missing details. Provide name and phone.'', st)
      else
        (let name_given = str_opt (cd_customer_name data);
             phone_given = str_opt (cd_phone data);
             st1 = executed (Select_customer name_given phone_given) st
         in case find (same_customer name_given phone_given) (appointments st) of
              None \<Rightarrow> (plain_result False ''No matching appointment found.'', st1)
            | Some row \<Rightarrow>
                (plain_result True
                   (''Your appointment at '' @ str_opt (cd_start_time data) @
                    '' has been canceled successfully.''),
                 executed (Delete_appointment (apt_id row))
                   (st1\<lparr>appointments :=
                          filter (\<lambda>r. apt_id r \<noteq> apt_id row) (appointments st1)\<rparr>))))"

section \<open>OrderPlugin and MessagePlugin\<close>






section \<open>Requests and reachable stores\<close>




text \<open>
  Half-open overlap of two intervals, and the invariant of the appointment table: no two
  rows at different positions are confirmed appointments of one business with
  overlapping intervals.
\<close>

definition intervals_overlap :: "instant \<Rightarrow> instant \<Rightarrow> instant \<Rightarrow> instant \<Rightarrow> bool" where
  "intervals_overlap s1 e1 s2 e2 = (s1 < e2 \<and> s2 < e1)"



section \<open>Sets for the loop invariants\<close>

text \<open>The instants the loop over one day may collect, starting at c.\<close>

definition slot_times :: "int \<Rightarrow> string option \<Rightarrow> instant \<Rightarrow> appointment list \<Rightarrow> instant \<Rightarrow> instant set" where
  "slot_times d b e rows c =
     {t. (\<exists>n::nat. t = c + 30 * int n) \<and> t + d \<le> e \<and> (\<forall>r\<in>set rows. \<not> conflicts b t (t + d) r)}"

text \<open>The instants the scan may collect on the day at offset k from the requested date.\<close>

definition day_slots ::
  "config \<Rightarrow> int \<Rightarrow> int \<Rightarrow> string option \<Rightarrow> appointment list \<Rightarrow> nat \<Rightarrow> instant set" where
  "day_slots cfg cd d b rows k =
     (case business_hours cfg (day_name_of (cd + int k)) of None \<Rightarrow> {}
      | Some h \<Rightarrow>
        if h = [] \<or> h = ''closed'' then {}
        else (case parse_hours h of None \<Rightarrow> {}
              | Some (open_hour, close_hour) \<Rightarrow>
                  slot_times d b ((cd + int k) * 1440 + minute_of_day close_hour) rows
                    ((cd + int k) * 1440 + minute_of_day open_hour)))"

section \<open>Example data\<close>

text \<open>Rows and stores written out for the concrete instances below.\<close>

definition row_of ::
  "nat \<Rightarrow> string \<Rightarrow> string \<Rightarrow> string \<Rightarrow> string \<Rightarrow> instant \<Rightarrow> instant \<Rightarrow> appointment" where
  "row_of i b n p v s e =
     \<lparr>apt_id = i, business_id = b, customer_name = Some n, phone = Some p, email = Some [],
      start_time = s, end_time = e, service = Some v, apt_notes = Some [],
      status = ''confirmed''\<rparr>"

definition store_of :: "appointment list \<Rightarrow> db" where
  "store_of rows = init_database\<lparr>appointments := rows, appointments_seq := length rows\<rparr>"

definition weekday_hours :: "string \<Rightarrow> string option" where
  "weekday_hours =
     map_of [(''monday'', ''09:00-17:00''), (''tuesday'', ''09:00-17:00''),
             (''wednesday'', ''09:00-17:00''), (''thursday'', ''9am-5pm''),
             (''friday'', ''09:00-17:00''), (''saturday'', ''closed'')]"

definition salon :: config where
  "salon =
     \<lparr>business_name = Some ''Salon'', business_hours = weekday_hours,
      appointment_types =
        [\<lparr>at_name = Some ''Haircut'', at_duration = Some 30\<rparr>,
         \<lparr>at_name = Some ''Walk-in'', at_duration = Some 0\<rparr>]\<rparr>"

definition booking :: "string \<Rightarrow> string \<Rightarrow> string option \<Rightarrow> appointment_data" where
  "booking d t s =
     \<lparr>ad_customer_name = Some ''Ann'', ad_phone = Some ''555'', ad_email = Some [],
      ad_date = Some d, ad_time = Some t, ad_service = s, ad_notes = Some [],
      ad_business_id = Some ''salon''\<rparr>"









definition odd_hours_salon :: config where
  "odd_hours_salon =
     salon\<lparr>business_hours := map_of [(''monday'', ''09:00-09:00''), (''tuesday'', ''09:15-17:00'')]\<rparr>"

section \<open>Facts about the store\<close>

lemma appointments_executed [simp]: "appointments (executed q st) = appointments st"
  and orders_executed [simp]: "orders (executed q st) = orders st"
  and messages_executed [simp]: "messages (executed q st) = messages st"
  by (simp_all add: executed_def)

lemma find_None_iff_set: "(find P xs = None) = (\<forall>x\<in>set xs. \<not> P x)"
  by (induction xs) auto

lemma find_first_match:
  "\<forall>x\<in>set pre. \<not> P x \<Longrightarrow> P row \<Longrightarrow> find P (pre @ row # post) = Some row"
  by (induction pre) auto

lemma filter_remove_unique:
  "distinct (map f (pre @ row # post)) \<Longrightarrow>
   filter (\<lambda>r. f r \<noteq> f row) (pre @ row # post) = pre @ post"
proof -
  assume d: "distinct (map f (pre @ row # post))"
  have a: "\<forall>r\<in>set pre. f r \<noteq> f row" using d by (fastforce simp: image_iff)
  have b: "\<forall>r\<in>set post. f r \<noteq> f row" using d by (fastforce simp: image_iff)
  show ?thesis using a b by (simp add: filter_id_conv)
qed


declare slots_loop.simps [simp del]

lemma journal_executed [simp]: "journal (executed q st) = journal st @ [q]"
  by (simp add: executed_def)

lemma check_availability_snd:
  "snd (check_availability s d b st) = executed (Select_conflict b s (s + d)) st"
  by (simp add: check_availability_def Let_def split: option.split)

lemma check_availability_journal:
  "journal (snd (check_availability s d b st)) = journal st @ [Select_conflict b s (s + d)]"
  by (simp add: check_availability_snd)

lemma check_availability_fst:
  "fst (fst (check_availability s d b st)) = (\<forall>r\<in>set (appointments st). \<not> conflicts b s (s + d) r)"
proof (cases "find (conflicts b s (s + d)) (appointments st)")
  case None
  then show ?thesis
    using find_None_iff_set [of "conflicts b s (s + d)" "appointments st"]
    by (simp add: check_availability_def Let_def)
next
  case (Some x)
  then show ?thesis
    using find_None_iff_set [of "conflicts b s (s + d)" "appointments st"]
    by (simp add: check_availability_def Let_def)
qed

lemma slots_loop_appointments:
  "appointments (snd (snd (slots_loop d b e c alts st))) = appointments st"
proof (induction d b e c alts st rule: slots_loop.induct)
  case (1 d b e c alts st)
  show ?case
    using 1 by (subst slots_loop.simps) (simp add: Let_def check_availability_snd)
qed



















lemma slots_loop_length:
  "length alts < 5 \<Longrightarrow>
   (if fst (snd (slots_loop d b e c alts st))
    then length (fst (slots_loop d b e c alts st)) = 5
    else length (fst (slots_loop d b e c alts st)) < 5)"
proof (induction d b e c alts st rule: slots_loop.induct)
  case (1 d b e c alts st)
  show ?case
    using 1 by (subst (1 2 3) slots_loop.simps) (auto simp: Let_def)
qed

lemma days_loop_length:
  "length alts < 5 \<Longrightarrow> length (fst (days_loop cfg cd d b offs alts st)) \<le> 5"
proof (induction offs arbitrary: alts st)
  case Nil
  then show ?case by simp
next
  case (Cons a offs)
  show ?case
    using Cons.prems Cons.IH slots_loop_length [of alts d b _ _ st]
    by (auto simp: Let_def split: option.split prod.split if_splits)
qed

lemma find_alternative_times_length:
  "length (fst (find_alternative_times cfg t d b st)) \<le> 5"
  by (simp add: find_alternative_times_def days_loop_length)






section \<open>Facts about parsed hours and the search loops\<close>

lemma isdigit_not_isspace: "isdigit c \<Longrightarrow> \<not> isspace c"
  by (simp add: isdigit_def isspace_def Let_def)

lemma match_seq_shape:
  "match_seq ks s = Some (m, r) \<Longrightarrow> list_all2 cmatch ks m \<and> s = m @ r"
proof (induction ks s arbitrary: m r rule: match_seq.induct)
  case (1 s)
  then show ?case by simp
next
  case (2 k ks)
  then show ?case by simp
next
  case (3 k ks c cs)
  then show ?case by (auto split: if_splits option.splits)
qed

lemma set_map_filter_eq:
  "set (List.map_filter f xs) = {y. \<exists>x\<in>set xs. f x = Some y}"
  by (induction xs) (auto simp: map_filter_simps split: option.splits)

lemma match_alts_member:
  "(m, r) \<in> set (match_alts alts s) \<Longrightarrow> \<exists>a\<in>set alts. list_all2 cmatch a m \<and> s = m @ r"
  by (auto simp: match_alts_def set_map_filter_eq dest: match_seq_shape)

lemma int_of_digits_two:
  "isdigit x \<Longrightarrow> isdigit y \<Longrightarrow> int_of_digits [x, y] = 10 * int (digit_val x) + int (digit_val y)"
  by (simp add: int_of_digits_def strip_def isdigit_not_isspace)

lemma int_of_digits_one:
  "isdigit x \<Longrightarrow> int_of_digits [x] = int (digit_val x)"
  by (simp add: int_of_digits_def strip_def isdigit_not_isspace)

lemma hour_group_range:
  assumes "(m, r) \<in> set (match_alts (directive_regex Dir_H) s)"
  shows "0 \<le> int_of_digits m \<and> int_of_digits m \<le> 23"
proof -
  from match_alts_member [OF assms]
  obtain a where a: "a \<in> set (directive_regex Dir_H)" "list_all2 cmatch a m" by blast
  then show ?thesis
    by (auto simp: list_all2_Cons1 int_of_digits_two int_of_digits_one)
qed

lemma minute_group_range:
  assumes "(m, r) \<in> set (match_alts (directive_regex Dir_M) s)"
  shows "0 \<le> int_of_digits m \<and> int_of_digits m \<le> 59"
proof -
  from match_alts_member [OF assms]
  obtain a where a: "a \<in> set (directive_regex Dir_M)" "list_all2 cmatch a m" by blast
  then show ?thesis
    by (auto simp: list_all2_Cons1 int_of_digits_two int_of_digits_one)
qed

lemma compile_HM: "compile_format ''%H:%M'' = Some [Group Dir_H, Literal CHR '':'', Group Dir_M]"
  by code_simp

lemma re_match_HM:
  assumes "(gs, rest) \<in> set (re_match [Group Dir_H, Literal CHR '':'', Group Dir_M] s)"
  shows "\<exists>m1 r1 m2 r0. (m1, r1) \<in> set (match_alts (directive_regex Dir_H) s) \<and>
           (m2, rest) \<in> set (match_alts (directive_regex Dir_M) r0) \<and>
           gs = [(Dir_H, m1), (Dir_M, m2)]"
  using assms by (auto simp: record_group_def)

lemma strptime_HM_range:
  assumes "strptime s ''%H:%M'' = Inr dt"
  shows "0 \<le> minute_of_day (dt_time dt) \<and> minute_of_day (dt_time dt) < 1440"
proof -
  have "\<exists>gs rest more.
          re_match [Group Dir_H, Literal CHR '':'', Group Dir_M] s = (gs, rest) # more \<and>
          dt_time dt = \<lparr>hour = group_hour gs, minute = group_minute gs, second = 0,
                          microsecond = 0\<rparr>"
    using assms unfolding strptime_def compile_HM
    by (auto simp: Let_def combine_def split: list.splits if_splits prod.splits)
  then obtain gs rest more where
    m: "re_match [Group Dir_H, Literal CHR '':'', Group Dir_M] s = (gs, rest) # more"
    and dt: "dt_time dt = \<lparr>hour = group_hour gs, minute = group_minute gs, second = 0,
                          microsecond = 0\<rparr>"
    by blast
  have "(gs, rest) \<in> set (re_match [Group Dir_H, Literal CHR '':'', Group Dir_M] s)"
    unfolding m by simp
  from re_match_HM [OF this] obtain m1 r1 m2 r0 where
    h: "(m1, r1) \<in> set (match_alts (directive_regex Dir_H) s)"
    and mi: "(m2, rest) \<in> set (match_alts (directive_regex Dir_M) r0)"
    and gs: "gs = [(Dir_H, m1), (Dir_M, m2)]"
    by blast
  have "group_hour gs = int_of_digits m1" "group_minute gs = int_of_digits m2"
    unfolding gs by (simp_all add: group_hour_def group_minute_def)
  then show ?thesis
    using hour_group_range [OF h] minute_group_range [OF mi] dt
    by (simp add: minute_of_day_def)
qed

lemma parse_hours_range:
  assumes "parse_hours h = Some (open_hour, close_hour)"
  shows "0 \<le> minute_of_day open_hour \<and> minute_of_day open_hour < 1440 \<and>
         0 \<le> minute_of_day close_hour \<and> minute_of_day close_hour < 1440"
  using assms strptime_HM_range
  by (fastforce simp: parse_hours_def split: list.splits sum.splits)

lemma alt_datetime_candidate [simp]: "alt_datetime (candidate t) = t"
  by (simp add: candidate_def)

lemma grid_shift: "(\<exists>n::nat. t = c + 30 + 30 * int n) \<Longrightarrow> \<exists>n::nat. t = c + 30 * int n"
proof -
  assume "\<exists>n::nat. t = c + 30 + 30 * int n"
  then obtain n :: nat where "t = c + 30 + 30 * int n" by blast
  then have "t = c + 30 * int (Suc n)" by simp
  then show ?thesis by blast
qed

lemma slot_times_mono: "slot_times d b e rows (c + 30) \<subseteq> slot_times d b e rows c"
proof
  fix t assume t: "t \<in> slot_times d b e rows (c + 30)"
  then have "\<exists>n::nat. t = c + 30 + 30 * int n" by (simp add: slot_times_def)
  then have "\<exists>n::nat. t = c + 30 * int n" by (rule grid_shift)
  then show "t \<in> slot_times d b e rows c" using t by (simp add: slot_times_def)
qed

lemma slot_times_above: "t \<in> slot_times d b e rows (c + 30) \<Longrightarrow> c < t"
proof -
  assume "t \<in> slot_times d b e rows (c + 30)"
  then obtain n :: nat where "t = c + 30 + 30 * int n" unfolding slot_times_def by blast
  then show "c < t" by simp
qed

lemma slot_times_first:
  assumes "c + d \<le> e" "\<forall>r\<in>set rows. \<not> conflicts b c (c + d) r"
  shows "c \<in> slot_times d b e rows c"
proof -
  have "\<exists>n::nat. c = c + 30 * int n" by (rule exI [of _ 0]) simp
  then show ?thesis using assms by (simp add: slot_times_def)
qed

lemma slots_loop_new:
  "\<exists>new. fst (slots_loop d b e c alts st) = alts @ new \<and>
     set new \<subseteq> candidate ` slot_times d b e (appointments st) c \<and>
     sorted_wrt (<) (map alt_datetime new)"
proof (induction d b e c alts st rule: slots_loop.induct)
  case (1 d b e c alts st)
  let ?x = "check_availability c d b st"
  have rows: "appointments (snd ?x) = appointments st"
    by (simp add: check_availability_snd)
  show ?case
  proof (cases "c + d \<le> e")
    case False
    then have "fst (slots_loop d b e c alts st) = alts @ []"
      by (subst slots_loop.simps) simp
    then show ?thesis by (intro exI [of _ "[]"]) simp
  next
    case le: True
    show ?thesis
    proof (cases "fst (fst ?x)")
      case False
      have "\<exists>new. fst (slots_loop d b e (c + 30) alts (snd ?x)) = alts @ new \<and>
              set new \<subseteq> candidate ` slot_times d b e (appointments st) (c + 30) \<and>
              sorted_wrt (<) (map alt_datetime new)"
        using 1(2) [OF le refl False] unfolding rows .
      then obtain new where
        new: "fst (slots_loop d b e (c + 30) alts (snd ?x)) = alts @ new"
             "set new \<subseteq> candidate ` slot_times d b e (appointments st) (c + 30)"
             "sorted_wrt (<) (map alt_datetime new)"
        by blast
      have eq: "slots_loop d b e c alts st = slots_loop d b e (c + 30) alts (snd ?x)"
        using le False by (subst slots_loop.simps) (simp add: Let_def)
      have "set new \<subseteq> candidate ` slot_times d b e (appointments st) c"
        using new(2) slot_times_mono [of d b e "appointments st" c] by blast
      then show ?thesis using new(1,3) eq by (intro exI [of _ new]) simp
    next
      case avail: True
      have cin: "c \<in> slot_times d b e (appointments st) c"
        using le avail by (intro slot_times_first) (simp_all add: check_availability_fst)
      show ?thesis
      proof (cases "5 \<le> length (alts @ [candidate c])")
        case True
        have "fst (slots_loop d b e c alts st) = alts @ [candidate c]"
          using le avail True by (subst slots_loop.simps) (simp add: Let_def)
        then show ?thesis using cin by (intro exI [of _ "[candidate c]"]) simp
      next
        case False
        have "\<exists>new. fst (slots_loop d b e (c + 30) (alts @ [candidate c]) (snd ?x)) =
                  (alts @ [candidate c]) @ new \<and>
               set new \<subseteq> candidate ` slot_times d b e (appointments st) (c + 30) \<and>
               sorted_wrt (<) (map alt_datetime new)"
          using 1(1) [OF le refl avail False] unfolding rows .
        then obtain new where
          new: "fst (slots_loop d b e (c + 30) (alts @ [candidate c]) (snd ?x)) =
                  (alts @ [candidate c]) @ new"
               "set new \<subseteq> candidate ` slot_times d b e (appointments st) (c + 30)"
               "sorted_wrt (<) (map alt_datetime new)"
          by blast
        have eq: "slots_loop d b e c alts st =
                  slots_loop d b e (c + 30) (alts @ [candidate c]) (snd ?x)"
          using le avail False by (subst slots_loop.simps) (simp add: Let_def)
        have a: "fst (slots_loop d b e c alts st) = alts @ (candidate c # new)"
          using eq new(1) by simp
        have b: "set (candidate c # new) \<subseteq> candidate ` slot_times d b e (appointments st) c"
          using new(2) slot_times_mono [of d b e "appointments st" c] cin by auto
        have "\<forall>a\<in>set new. c < alt_datetime a"
          using new(2) slot_times_above [of _ d b e "appointments st" c] by auto
        then have s: "sorted_wrt (<) (map alt_datetime (candidate c # new))"
          using new(3) by simp
        show ?thesis using a b s by blast
      qed
    qed
  qed
qed


lemma slot_times_ge: "t \<in> slot_times d b e rows c \<Longrightarrow> c \<le> t"
proof -
  assume "t \<in> slot_times d b e rows c"
  then obtain n :: nat where "t = c + 30 * int n" unfolding slot_times_def by blast
  then show "c \<le> t" by simp
qed

lemma slot_times_le: "t \<in> slot_times d b e rows c \<Longrightarrow> t + d \<le> e"
  by (simp add: slot_times_def)

lemma closed_entry_cases:
  "\<not> closed_entry hours \<Longrightarrow> \<exists>h. hours = Some h \<and> h \<noteq> [] \<and> h \<noteq> ''closed''"
  by (cases hours) (simp_all add: closed_entry_def)

lemma day_slots_open:
  "business_hours cfg (day_name_of (cd + int k)) = Some h \<Longrightarrow> h \<noteq> [] \<Longrightarrow> h \<noteq> ''closed'' \<Longrightarrow>
   parse_hours h = Some (open_hour, close_hour) \<Longrightarrow>
   day_slots cfg cd d b rows k =
     slot_times d b ((cd + int k) * 1440 + minute_of_day close_hour) rows
       ((cd + int k) * 1440 + minute_of_day open_hour)"
  by (simp add: day_slots_def)

lemma days_loop_new:
  "\<exists>new. fst (days_loop cfg cd d b offs alts st) = alts @ new \<and>
     set new \<subseteq> candidate ` (\<Union>k\<in>set offs. day_slots cfg cd d b (appointments st) k)"
proof (induction offs arbitrary: alts st)
  case Nil
  show ?case by simp
next
  case (Cons k rest)
  let ?hours = "business_hours cfg (day_name_of (cd + int k))"
  let ?U = "\<lambda>ks. candidate ` (\<Union>k\<in>set ks. day_slots cfg cd d b (appointments st) k)"
  have grow: "?U rest \<subseteq> ?U (k # rest)" by auto
  have skip: "days_loop cfg cd d b (k # rest) alts st = days_loop cfg cd d b rest alts st \<Longrightarrow>
              ?case"
  proof -
    assume eq: "days_loop cfg cd d b (k # rest) alts st = days_loop cfg cd d b rest alts st"
    from Cons [of alts st] obtain new where
      n: "fst (days_loop cfg cd d b rest alts st) = alts @ new" "set new \<subseteq> ?U rest"
      by blast
    have "set new \<subseteq> ?U (k # rest)" using n(2) grow by (rule subset_trans)
    then show ?thesis unfolding eq using n(1) by (intro exI [of _ new] conjI)
  qed
  show ?case
  proof (cases "closed_entry ?hours")
    case True
    then have "days_loop cfg cd d b (k # rest) alts st = days_loop cfg cd d b rest alts st"
      by (simp add: Let_def)
    then show ?thesis by (rule skip)
  next
    case False
    then obtain h where h: "?hours = Some h" "h \<noteq> []" "h \<noteq> ''closed''"
      using closed_entry_cases by blast
    show ?thesis
    proof (cases "parse_hours h")
      case None
      then have "days_loop cfg cd d b (k # rest) alts st = days_loop cfg cd d b rest alts st"
        using False h by (simp add: Let_def)
      then show ?thesis by (rule skip)
    next
      case (Some oc)
      obtain op cl where oc: "oc = (op, cl)" by (cases oc)
      let ?e = "(cd + int k) * 1440 + minute_of_day cl"
      let ?s = "(cd + int k) * 1440 + minute_of_day op"
      let ?r = "slots_loop d b ?e ?s alts st"
      have ds: "day_slots cfg cd d b (appointments st) k = slot_times d b ?e (appointments st) ?s"
        using h Some oc by (intro day_slots_open) simp_all
      from slots_loop_new [of d b ?e ?s alts st] obtain new1 where
        n1: "fst ?r = alts @ new1"
            "set new1 \<subseteq> candidate ` slot_times d b ?e (appointments st) ?s"
        by blast
      have "candidate ` slot_times d b ?e (appointments st) ?s \<subseteq> ?U (k # rest)"
        unfolding ds [symmetric] by auto
      then have n1': "set new1 \<subseteq> ?U (k # rest)"
        using n1(2) by (rule_tac subset_trans)
      show ?thesis
      proof (cases "fst (snd ?r)")
        case True
        then have eq: "fst (days_loop cfg cd d b (k # rest) alts st) = fst ?r"
          using False h Some oc by (simp add: Let_def)
        show ?thesis unfolding eq using n1(1) n1' by (intro exI [of _ new1] conjI)
      next
        case nf: False
        then have eq: "days_loop cfg cd d b (k # rest) alts st =
                       days_loop cfg cd d b rest (fst ?r) (snd (snd ?r))"
          using False h Some oc by (simp add: Let_def)
        have "\<exists>new. fst (days_loop cfg cd d b rest (fst ?r) (snd (snd ?r))) = fst ?r @ new \<and>
                set new \<subseteq> ?U rest"
          using Cons [of "fst ?r" "snd (snd ?r)"] unfolding slots_loop_appointments .
        then obtain new2 where
          n2: "fst (days_loop cfg cd d b rest (fst ?r) (snd (snd ?r))) = fst ?r @ new2"
              "set new2 \<subseteq> ?U rest"
          by blast
        have a: "fst (days_loop cfg cd d b (k # rest) alts st) = alts @ (new1 @ new2)"
          unfolding eq using n1(1) n2(1) by simp
        have "set new2 \<subseteq> ?U (k # rest)" using n2(2) grow by (rule subset_trans)
        then have b: "set (new1 @ new2) \<subseteq> ?U (k # rest)" using n1' by simp
        show ?thesis using a b by (intro exI [of _ "new1 @ new2"] conjI)
      qed
    qed
  qed
qed


lemma slots_loop_sorted:
  assumes "sorted_wrt (<) (map alt_datetime alts)" "\<forall>a\<in>set alts. alt_datetime a < c"
  shows "sorted_wrt (<) (map alt_datetime (fst (slots_loop d b e c alts st)))"
proof -
  from slots_loop_new [of d b e c alts st] obtain new where
    n: "fst (slots_loop d b e c alts st) = alts @ new"
       "set new \<subseteq> candidate ` slot_times d b e (appointments st) c"
       "sorted_wrt (<) (map alt_datetime new)"
    by blast
  have "\<forall>a\<in>set new. c \<le> alt_datetime a"
    using n(2) slot_times_ge [of _ d b e "appointments st" c] by auto
  then have "\<forall>x\<in>set alts. \<forall>y\<in>set new. alt_datetime x < alt_datetime y"
    using assms(2) by fastforce
  then show ?thesis
    unfolding n(1) using assms(1) n(3) by (simp add: sorted_wrt_append)
qed

lemma same_day:
  fixes t dy :: int
  assumes "dy * 1440 \<le> t" "t < dy * 1440 + 1440"
  shows "t div 1440 = dy"
proof -
  have "t = dy * 1440 + (t - dy * 1440)" by simp
  moreover have "0 \<le> t - dy * 1440" "t - dy * 1440 < 1440" using assms by simp_all
  ultimately have "t div 1440 = (dy * 1440 + (t - dy * 1440)) div 1440" by simp
  also have "\<dots> = dy + (t - dy * 1440) div 1440" by simp
  also have "\<dots> = dy"
    using \<open>0 \<le> t - dy * 1440\<close> \<open>t - dy * 1440 < 1440\<close> by simp
  finally show ?thesis .
qed

lemma slot_times_window:
  fixes dy :: int
  assumes "t \<in> slot_times d b (dy * 1440 + mc) rows (dy * 1440 + mo)"
    and "0 \<le> d" "0 \<le> mo" "mc < 1440"
  shows "t div 1440 = dy \<and> t mod 1440 = t - dy * 1440"
proof -
  have lo: "dy * 1440 \<le> t" using slot_times_ge [OF assms(1)] assms(3) by simp
  have hi: "t < dy * 1440 + 1440" using slot_times_le [OF assms(1)] assms(2,4) by simp
  have d: "t div 1440 = dy" using lo hi by (rule same_day)
  have "t mod 1440 = t - (t div 1440) * 1440" by (simp add: minus_div_mult_eq_mod)
  then show ?thesis using d by simp
qed

lemma days_loop_sorted:
  assumes "0 \<le> d" "sorted_wrt (<) offs" "sorted_wrt (<) (map alt_datetime alts)"
    "\<forall>a\<in>set alts. \<forall>k\<in>set offs. alt_datetime a < (cd + int k) * 1440"
  shows "sorted_wrt (<) (map alt_datetime (fst (days_loop cfg cd d b offs alts st)))"
  using assms
proof (induction offs arbitrary: alts st)
  case Nil
  then show ?case by simp
next
  case (Cons k rest)
  let ?hours = "business_hours cfg (day_name_of (cd + int k))"
  have rest_sorted: "sorted_wrt (<) rest" using Cons.prems(2) by simp
  have later: "\<forall>k'\<in>set rest. k < k'" using Cons.prems(2) by simp
  have below: "\<forall>a\<in>set alts. \<forall>k\<in>set rest. alt_datetime a < (cd + int k) * 1440"
    using Cons.prems(4) by simp
  have skip: "sorted_wrt (<) (map alt_datetime (fst (days_loop cfg cd d b rest alts st)))"
    using Cons.IH [OF Cons.prems(1) rest_sorted Cons.prems(3) below] .
  show ?case
  proof (cases "closed_entry ?hours")
    case True
    then have "days_loop cfg cd d b (k # rest) alts st = days_loop cfg cd d b rest alts st"
      by (simp add: Let_def)
    then show ?thesis using skip by simp
  next
    case False
    then obtain h where h: "?hours = Some h" "h \<noteq> []" "h \<noteq> ''closed''"
      using closed_entry_cases by blast
    show ?thesis
    proof (cases "parse_hours h")
      case None
      then have "days_loop cfg cd d b (k # rest) alts st = days_loop cfg cd d b rest alts st"
        using False h by (simp add: Let_def)
      then show ?thesis using skip by simp
    next
      case (Some oc)
      obtain op cl where oc: "oc = (op, cl)" by (cases oc)
      have range: "0 \<le> minute_of_day op" "minute_of_day cl < 1440"
        using parse_hours_range [of h op cl] Some oc by simp_all
      let ?e = "(cd + int k) * 1440 + minute_of_day cl"
      let ?s = "(cd + int k) * 1440 + minute_of_day op"
      let ?r = "slots_loop d b ?e ?s alts st"
      from slots_loop_new [of d b ?e ?s alts st] obtain new1 where
        n1: "fst ?r = alts @ new1"
            "set new1 \<subseteq> candidate ` slot_times d b ?e (appointments st) ?s"
        by blast
      have "\<forall>a\<in>set alts. alt_datetime a < ?s"
      proof
        fix a assume "a \<in> set alts"
        then have "alt_datetime a < (cd + int k) * 1440" using Cons.prems(4) by simp
        then show "alt_datetime a < ?s" using range(1) by simp
      qed
      then have sorted_r: "sorted_wrt (<) (map alt_datetime (fst ?r))"
        using Cons.prems(3) by (intro slots_loop_sorted) simp_all
      show ?thesis
      proof (cases "fst (snd ?r)")
        case True
        then have "fst (days_loop cfg cd d b (k # rest) alts st) = fst ?r"
          using False h Some oc by (simp add: Let_def)
        then show ?thesis using sorted_r by simp
      next
        case nf: False
        then have eq: "days_loop cfg cd d b (k # rest) alts st =
                       days_loop cfg cd d b rest (fst ?r) (snd (snd ?r))"
          using False h Some oc by (simp add: Let_def)
        have new_below: "\<forall>a\<in>set new1. \<forall>k'\<in>set rest. alt_datetime a < (cd + int k') * 1440"
        proof (intro ballI)
          fix a k' assume a: "a \<in> set new1" and k': "k' \<in> set rest"
          from a n1(2) obtain t where t: "a = candidate t"
            "t \<in> slot_times d b ?e (appointments st) ?s"
            by blast
          have "t + d \<le> ?e" using t(2) by (rule slot_times_le)
          then have "t < (cd + int k) * 1440 + 1440" using Cons.prems(1) range(2) by simp
          moreover have "int k + 1 \<le> int k'" using later k' by fastforce
          then have "(cd + int k) * 1440 + 1440 \<le> (cd + int k') * 1440" by simp
          ultimately show "alt_datetime a < (cd + int k') * 1440" using t(1) by simp
        qed
        have all_below: "\<forall>a\<in>set (fst ?r). \<forall>k\<in>set rest. alt_datetime a < (cd + int k) * 1440"
          unfolding n1(1) using below new_below by auto
        show ?thesis
          unfolding eq
          using Cons.IH [OF Cons.prems(1) rest_sorted sorted_r all_below] .
      qed
    qed
  qed
qed


lemma slots_loop_last_query:
  "fst (snd (slots_loop d b e c alts st)) \<Longrightarrow>
   journal (snd (snd (slots_loop d b e c alts st))) \<noteq> [] \<and>
   last (journal (snd (snd (slots_loop d b e c alts st)))) =
     Select_conflict b (alt_datetime (last (fst (slots_loop d b e c alts st))))
       (alt_datetime (last (fst (slots_loop d b e c alts st))) + d)"
proof (induction d b e c alts st rule: slots_loop.induct)
  case (1 d b e c alts st)
  let ?x = "check_availability c d b st"
  show ?case
  proof (cases "c + d \<le> e")
    case False
    then have "\<not> fst (snd (slots_loop d b e c alts st))"
      by (subst slots_loop.simps) simp
    then show ?thesis using 1(3) by simp
  next
    case le: True
    show ?thesis
    proof (cases "fst (fst ?x)")
      case False
      have eq: "slots_loop d b e c alts st = slots_loop d b e (c + 30) alts (snd ?x)"
        using le False by (subst slots_loop.simps) (simp add: Let_def)
      show ?thesis using 1(2) [OF le refl False] 1(3) unfolding eq by simp
    next
      case avail: True
      show ?thesis
      proof (cases "5 \<le> length (alts @ [candidate c])")
        case True
        have eq: "slots_loop d b e c alts st = (alts @ [candidate c], True, snd ?x)"
          using le avail True by (subst slots_loop.simps) (simp add: Let_def)
        show ?thesis unfolding eq by (simp add: check_availability_snd)
      next
        case False
        have eq: "slots_loop d b e c alts st =
                  slots_loop d b e (c + 30) (alts @ [candidate c]) (snd ?x)"
          using le avail False by (subst slots_loop.simps) (simp add: Let_def)
        show ?thesis using 1(1) [OF le refl avail False] 1(3) unfolding eq by simp
      qed
    qed
  qed
qed

lemma days_loop_last_query:
  "length alts < 5 \<Longrightarrow> length (fst (days_loop cfg cd d b offs alts st)) = 5 \<Longrightarrow>
   journal (snd (days_loop cfg cd d b offs alts st)) \<noteq> [] \<and>
   last (journal (snd (days_loop cfg cd d b offs alts st))) =
     Select_conflict b (alt_datetime (last (fst (days_loop cfg cd d b offs alts st))))
       (alt_datetime (last (fst (days_loop cfg cd d b offs alts st))) + d)"
proof (induction offs arbitrary: alts st)
  case Nil
  then show ?case by simp
next
  case (Cons k rest)
  let ?hours = "business_hours cfg (day_name_of (cd + int k))"
  show ?case
  proof (cases "closed_entry ?hours")
    case True
    then have eq: "days_loop cfg cd d b (k # rest) alts st = days_loop cfg cd d b rest alts st"
      by (simp add: Let_def)
    show ?thesis using Cons.IH [of alts st] Cons.prems unfolding eq by simp
  next
    case False
    then obtain h where h: "?hours = Some h" "h \<noteq> []" "h \<noteq> ''closed''"
      using closed_entry_cases by blast
    show ?thesis
    proof (cases "parse_hours h")
      case None
      then have eq: "days_loop cfg cd d b (k # rest) alts st = days_loop cfg cd d b rest alts st"
        using False h by (simp add: Let_def)
      show ?thesis using Cons.IH [of alts st] Cons.prems unfolding eq by simp
    next
      case (Some oc)
      obtain op cl where oc: "oc = (op, cl)" by (cases oc)
      let ?e = "(cd + int k) * 1440 + minute_of_day cl"
      let ?s = "(cd + int k) * 1440 + minute_of_day op"
      let ?r = "slots_loop d b ?e ?s alts st"
      show ?thesis
      proof (cases "fst (snd ?r)")
        case True
        then have eq: "days_loop cfg cd d b (k # rest) alts st = (fst ?r, snd (snd ?r))"
          using False h Some oc by (simp add: Let_def)
        show ?thesis unfolding eq using slots_loop_last_query [OF True] by simp
      next
        case nf: False
        then have eq: "days_loop cfg cd d b (k # rest) alts st =
                       days_loop cfg cd d b rest (fst ?r) (snd (snd ?r))"
          using False h Some oc by (simp add: Let_def)
        have short: "length (fst ?r) < 5"
          using slots_loop_length [OF Cons.prems(1), of d b ?e ?s st] nf by simp
        show ?thesis
          using Cons.IH [OF short, of "snd (snd ?r)"] Cons.prems(2) unfolding eq by simp
      qed
    qed
  qed
qed

lemma day_slots_member:
  assumes "t \<in> day_slots cfg cd d b rows k"
  shows "\<exists>n h open_hour close_hour.
           business_hours cfg (day_name_of (cd + int k)) = Some h \<and> h \<noteq> [] \<and> h \<noteq> ''closed'' \<and>
           parse_hours h = Some (open_hour, close_hour) \<and>
           t = (cd + int k) * 1440 + minute_of_day open_hour + 30 * int n \<and>
           t + d \<le> (cd + int k) * 1440 + minute_of_day close_hour \<and>
           (\<forall>r\<in>set rows. \<not> conflicts b t (t + d) r) \<and>
           (0 \<le> d \<longrightarrow> t div 1440 = cd + int k \<and> minute_of_day open_hour \<le> t mod 1440 \<and>
                       t mod 1440 + d \<le> minute_of_day close_hour)"
proof -
  from assms obtain h op cl where
    h: "business_hours cfg (day_name_of (cd + int k)) = Some h" "h \<noteq> []" "h \<noteq> ''closed''"
       "parse_hours h = Some (op, cl)"
    and t: "t \<in> slot_times d b ((cd + int k) * 1440 + minute_of_day cl) rows
                  ((cd + int k) * 1440 + minute_of_day op)"
    by (auto simp: day_slots_def split: option.splits if_splits)
  from t obtain n :: nat where
    n: "t = (cd + int k) * 1440 + minute_of_day op + 30 * int n"
       "t + d \<le> (cd + int k) * 1440 + minute_of_day cl"
       "\<forall>r\<in>set rows. \<not> conflicts b t (t + d) r"
    unfolding slot_times_def by blast
  have range: "0 \<le> minute_of_day op" "minute_of_day cl < 1440"
    using parse_hours_range [OF h(4)] by simp_all
  have w: "0 \<le> d \<longrightarrow> t div 1440 = cd + int k \<and> minute_of_day op \<le> t mod 1440 \<and>
                       t mod 1440 + d \<le> minute_of_day cl"
  proof
    assume d: "0 \<le> d"
    have "t div 1440 = cd + int k \<and> t mod 1440 = t - (cd + int k) * 1440"
      using slot_times_window [OF t d range] .
    then show "t div 1440 = cd + int k \<and> minute_of_day op \<le> t mod 1440 \<and>
               t mod 1440 + d \<le> minute_of_day cl"
      using n(1,2) by simp
  qed
  show ?thesis
    using h n w
    by (intro exI [of _ n] exI [of _ h] exI [of _ op] exI [of _ cl]) simp
qed

lemma free_means_no_overlap:
  assumes "\<not> conflicts bid s e r" "Some (business_id r) = bid" "status r = ''confirmed''"
  shows "\<not> intervals_overlap (start_time r) (end_time r) s e"
  using assms by (auto simp: conflicts_def intervals_overlap_def)

section \<open>Cancellation\<close>

text \<open>
  C9. A cancellation request without a customer name or without a phone (absent or
  empty) is answered with \<^verbatim>\<open>success: false\<close> and the validation message, and the
  database is left as it was. With name and phone given and no row matching both, the
  answer is \<^verbatim>\<open>success: false\<close> with the not-found message and the three tables are
  unchanged. With a match, exactly the first matching row (in row-id order) is deleted
  (row ids being unique), the answer is \<^verbatim>\<open>success: true\<close>, and the message repeats the
  \<^verbatim>\<open>start_time\<close> string of the request, whatever the stored row holds.
\<close>

theorem cancellation_outcomes:
  "(\<not> (truthy (cd_customer_name data) \<and> truthy (cd_phone data)) \<longrightarrow>
      cancellation_process data st =
        (plain_result False ''Missing details. Provide name and phone.'', st)) \<and>
   (cd_customer_name data = Some n \<and> n \<noteq> [] \<and> cd_phone data = Some p \<and> p \<noteq> [] \<and>
    (\<forall>r\<in>set (appointments st). \<not> same_customer n p r) \<longrightarrow>
      fst (cancellation_process data st) = plain_result False ''No matching appointment found.'' \<and>
      appointments (snd (cancellation_process data st)) = appointments st \<and>
      orders (snd (cancellation_process data st)) = orders st \<and>
      messages (snd (cancellation_process data st)) = messages st) \<and>
   (cd_customer_name data = Some n \<and> n \<noteq> [] \<and> cd_phone data = Some p \<and> p \<noteq> [] \<and>
    cd_start_time data = Some s \<and>
    distinct (map apt_id (appointments st)) \<and> appointments st = pre @ row # post \<and>
    (\<forall>r\<in>set pre. \<not> same_customer n p r) \<and> same_customer n p row \<longrightarrow>
      fst (cancellation_process data st) =
        plain_result True (''Your appointment at '' @ s @ '' has been canceled successfully.'') \<and>
      appointments (snd (cancellation_process data st)) = pre @ post \<and>
      orders (snd (cancellation_process data st)) = orders st \<and>
      messages (snd (cancellation_process data st)) = messages st)"
proof (intro conjI impI)
  assume "\<not> (truthy (cd_customer_name data) \<and> truthy (cd_phone data))"
  then show "cancellation_process data st =
        (plain_result False ''Missing details. Provide name and phone.'', st)"
    by (simp add: cancellation_process_def)
next
  assume h: "cd_customer_name data = Some n \<and> n \<noteq> [] \<and> cd_phone data = Some p \<and> p \<noteq> [] \<and>
    (\<forall>r\<in>set (appointments st). \<not> same_customer n p r)"
  then have f: "find (same_customer n p) (appointments st) = None"
    by (simp add: find_None_iff_set)
  have t: "truthy (cd_customer_name data)" "truthy (cd_phone data)"
    using h by (simp_all add: truthy_def)
  show "fst (cancellation_process data st) = plain_result False ''No matching appointment found.''"
    using h f t by (simp add: cancellation_process_def Let_def str_opt_def)
  show "appointments (snd (cancellation_process data st)) = appointments st"
    using h f t by (simp add: cancellation_process_def Let_def str_opt_def)
  show "orders (snd (cancellation_process data st)) = orders st"
    using h f t by (simp add: cancellation_process_def Let_def str_opt_def)
  show "messages (snd (cancellation_process data st)) = messages st"
    using h f t by (simp add: cancellation_process_def Let_def str_opt_def)
next
  assume h: "cd_customer_name data = Some n \<and> n \<noteq> [] \<and> cd_phone data = Some p \<and> p \<noteq> [] \<and>
    cd_start_time data = Some s \<and>
    distinct (map apt_id (appointments st)) \<and> appointments st = pre @ row # post \<and>
    (\<forall>r\<in>set pre. \<not> same_customer n p r) \<and> same_customer n p row"
  then have f: "find (same_customer n p) (appointments st) = Some row"
    by (simp add: find_first_match)
  have t: "truthy (cd_customer_name data)" "truthy (cd_phone data)"
    using h by (simp_all add: truthy_def)
  have d: "distinct (map apt_id (pre @ row # post))" using h by metis
  have e: "appointments st = pre @ row # post" using h by blast
  have r: "filter (\<lambda>r. apt_id r \<noteq> apt_id row) (appointments st) = pre @ post"
    unfolding e by (rule filter_remove_unique [OF d])
  show "fst (cancellation_process data st) =
        plain_result True (''Your appointment at '' @ s @ '' has been canceled successfully.'')"
    using h f t by (simp add: cancellation_process_def Let_def str_opt_def)
  show "appointments (snd (cancellation_process data st)) = pre @ post"
    using h f t r by (simp add: cancellation_process_def Let_def str_opt_def)
  show "orders (snd (cancellation_process data st)) = orders st"
    using h f t by (simp add: cancellation_process_def Let_def str_opt_def)
  show "messages (snd (cancellation_process data st)) = messages st"
    using h f t by (simp add: cancellation_process_def Let_def str_opt_def)
qed


theorem cancellation_outcomes_witness:
  "cancellation_process \<lparr>cd_customer_name = Some ''Ann'', cd_phone = None, cd_start_time = None\<rparr>
     (store_of [row_of 1 ''acme'' ''Bob'' ''777'' ''Cut'' 600 630, row_of 2 ''acme'' ''Ann'' ''555'' ''Cut'' 660 690,
                row_of 3 ''zen'' ''Ann'' ''555'' ''Cut'' 720 750]) =
     (plain_result False ''Missing details. Provide name and phone.'',
      store_of [row_of 1 ''acme'' ''Bob'' ''777'' ''Cut'' 600 630, row_of 2 ''acme'' ''Ann'' ''555'' ''Cut'' 660 690,
                row_of 3 ''zen'' ''Ann'' ''555'' ''Cut'' 720 750]) \<and>
   fst (cancellation_process
          \<lparr>cd_customer_name = Some ''Ann'', cd_phone = Some ''999'', cd_start_time = None\<rparr>
          (store_of [row_of 1 ''acme'' ''Bob'' ''777'' ''Cut'' 600 630,
                     row_of 2 ''acme'' ''Ann'' ''555'' ''Cut'' 660 690,
                     row_of 3 ''zen'' ''Ann'' ''555'' ''Cut'' 720 750])) =
     plain_result False ''No matching appointment found.'' \<and>
   length (appointments (snd (cancellation_process
          \<lparr>cd_customer_name = Some ''Ann'', cd_phone = Some ''999'', cd_start_time = None\<rparr>
          (store_of [row_of 1 ''acme'' ''Bob'' ''777'' ''Cut'' 600 630,
                     row_of 2 ''acme'' ''Ann'' ''555'' ''Cut'' 660 690,
                     row_of 3 ''zen'' ''Ann'' ''555'' ''Cut'' 720 750])))) = 3 \<and>
   fst (cancellation_process
          \<lparr>cd_customer_name = Some ''Ann'', cd_phone = Some ''555'',
           cd_start_time = Some ''tomorrow at 11''\<rparr>
          (store_of [row_of 1 ''acme'' ''Bob'' ''777'' ''Cut'' 600 630,
                     row_of 2 ''acme'' ''Ann'' ''555'' ''Cut'' 660 690,
                     row_of 3 ''zen'' ''Ann'' ''555'' ''Cut'' 720 750])) =
     plain_result True ''Your appointment at tomorrow at 11 has been canceled successfully.'' \<and>
   appointments (snd (cancellation_process
          \<lparr>cd_customer_name = Some ''Ann'', cd_phone = Some ''555'',
           cd_start_time = Some ''tomorrow at 11''\<rparr>
          (store_of [row_of 1 ''acme'' ''Bob'' ''777'' ''Cut'' 600 630,
                     row_of 2 ''acme'' ''Ann'' ''555'' ''Cut'' 660 690,
                     row_of 3 ''zen'' ''Ann'' ''555'' ''Cut'' 720 750]))) =
     [row_of 1 ''acme'' ''Bob'' ''777'' ''Cut'' 600 630, row_of 3 ''zen'' ''Ann'' ''555'' ''Cut'' 720 750]"
  using
    cancellation_outcomes [of "\<lparr>cd_customer_name = Some ''Ann'', cd_phone = None, cd_start_time = None\<rparr>"
      "store_of [row_of 1 ''acme'' ''Bob'' ''777'' ''Cut'' 600 630, row_of 2 ''acme'' ''Ann'' ''555'' ''Cut'' 660 690,
                row_of 3 ''zen'' ''Ann'' ''555'' ''Cut'' 720 750]"]
    cancellation_outcomes [of "\<lparr>cd_customer_name = Some ''Ann'', cd_phone = Some ''999'', cd_start_time = None\<rparr>"
      "store_of [row_of 1 ''acme'' ''Bob'' ''777'' ''Cut'' 600 630, row_of 2 ''acme'' ''Ann'' ''555'' ''Cut'' 660 690,
                row_of 3 ''zen'' ''Ann'' ''555'' ''Cut'' 720 750]" "''Ann''" "''999''"]
    cancellation_outcomes [of "\<lparr>cd_customer_name = Some ''Ann'', cd_phone = Some ''555'', cd_start_time = Some ''tomorrow at 11''\<rparr>"
      "store_of [row_of 1 ''acme'' ''Bob'' ''777'' ''Cut'' 600 630, row_of 2 ''acme'' ''Ann'' ''555'' ''Cut'' 660 690,
                row_of 3 ''zen'' ''Ann'' ''555'' ''Cut'' 720 750]" "''Ann''" "''555''" "''tomorrow at 11''"
      "[row_of 1 ''acme'' ''Bob'' ''777'' ''Cut'' 600 630]" "row_of 2 ''acme'' ''Ann'' ''555'' ''Cut'' 660 690"
      "[row_of 3 ''zen'' ''Ann'' ''555'' ''Cut'' 720 750]"]
  by (simp add: store_of_def row_of_def init_database_def truthy_def same_customer_def)


section \<open>The appointment table is never double-booked\<close>




section \<open>Business hours\<close>

text \<open>
  C7. When the hours string configured for the day is neither empty nor \<^verbatim>\<open>closed\<close> and
  the \<^verbatim>\<open>try\<close> block that parses it raises, both readers fail open: the after-hours
  handler answers (not after hours, empty message) and the scheduling check answers
  that the instant is within hours. Both are ordinary return values; nothing is raised.
\<close>

theorem unparsable_hours_fail_open:
  "h \<noteq> [] \<and> h \<noteq> ''closed'' \<and> parse_hours h = None \<longrightarrow>
     (business_hours cfg (lower (strftime ''%A'' now)) = Some h \<longrightarrow>
        is_after_hours cfg now = (False, [])) \<and>
     (business_hours cfg (day_name_of (t div 1440)) = Some h \<longrightarrow>
        is_within_business_hours cfg t)"
  by (simp add: is_after_hours_def is_within_business_hours_def closed_entry_def Let_def)

theorem unparsable_hours_fail_open_witness:
  "is_after_hours salon
     \<lparr>dt_date = \<lparr>year = 2024, month = 11, day = 7\<rparr>,
      dt_time = \<lparr>hour = 23, minute = 15, second = 40, microsecond = 0\<rparr>\<rparr> = (False, []) \<and>
   is_within_business_hours salon 1064444280"
proof -
  have p: "''9am-5pm'' \<noteq> [] \<and> ''9am-5pm'' \<noteq> ''closed'' \<and> parse_hours ''9am-5pm'' = None"
    by code_simp
  have a: "business_hours salon
             (lower (strftime ''%A''
                \<lparr>dt_date = \<lparr>year = 2024, month = 11, day = 7\<rparr>,
                 dt_time = \<lparr>hour = 23, minute = 15, second = 40, microsecond = 0\<rparr>\<rparr>)) =
           Some ''9am-5pm''"
    by code_simp
  have b: "business_hours salon (day_name_of (1064444280 div 1440)) = Some ''9am-5pm''"
    by code_simp
  show ?thesis
    using unparsable_hours_fail_open
            [of "''9am-5pm''" salon
                "\<lparr>dt_date = \<lparr>year = 2024, month = 11, day = 7\<rparr>,
                  dt_time = \<lparr>hour = 23, minute = 15, second = 40, microsecond = 0\<rparr>\<rparr>"
                1064444280] p a b
    by blast
qed

text \<open>
  C6. The hours check is false on a day whose entry is missing, empty or \<^verbatim>\<open>closed\<close>;
  on a day whose entry parses to opening and closing times it is true exactly when the
  instant's minute of the day lies between them, both bounds included. A booking whose
  date, time and service resolve and whose instant fails the check is answered with
  \<^verbatim>\<open>success: false\<close> and the hours text, and the database is left as it was: its
  journal has no new statement, so neither the conflict query nor the search for
  alternatives (which sends one conflict query per candidate) has run.
\<close>

theorem business_hours_gate:
  "(closed_entry (business_hours cfg (day_name_of (t div 1440))) \<longrightarrow>
      \<not> is_within_business_hours cfg t) \<and>
   (business_hours cfg (day_name_of (t div 1440)) = Some h \<and> h \<noteq> [] \<and> h \<noteq> ''closed'' \<and>
    parse_hours h = Some (open_hour, close_hour) \<longrightarrow>
      is_within_business_hours cfg t =
        (minute_of_day open_hour \<le> t mod 1440 \<and> t mod 1440 \<le> minute_of_day close_hour)) \<and>
   (parse_datetime (ad_date data) (ad_time data) = Inr parsed \<and>
    get_service_duration (appointment_types cfg) (ad_service data) = Inr d \<and>
    \<not> is_within_business_hours cfg (instant_of parsed) \<longrightarrow>
      appointment_process cfg data st = (Inr (plain_result False closed_message), st) \<and>
      journal (snd (appointment_process cfg data st)) = journal st)"
  by (simp add: is_within_business_hours_def closed_entry_def Let_def appointment_process_def)


theorem business_hours_gate_witness:
  "\<not> is_within_business_hours salon 1064447160 \<and>
   \<not> is_within_business_hours salon 1064439840 \<and>
   appointment_process salon (booking ''2024-11-04'' ''08:00'' (Some ''haircut''))
     (store_of [row_of 1 ''salon'' ''Bob'' ''777'' ''Cut'' 1064439960 1064439990]) =
     (Inr (plain_result False closed_message),
      store_of [row_of 1 ''salon'' ''Bob'' ''777'' ''Cut'' 1064439960 1064439990]) \<and>
   journal (snd (appointment_process salon (booking ''2024-11-04'' ''08:00'' (Some ''haircut''))
     (store_of [row_of 1 ''salon'' ''Bob'' ''777'' ''Cut'' 1064439960 1064439990]))) = []"
proof -
  have sat: "closed_entry (business_hours salon (day_name_of (1064447160 div 1440)))"
    by code_simp
  have mon: "business_hours salon (day_name_of (1064439840 div 1440)) = Some ''09:00-17:00'' \<and>
             ''09:00-17:00'' \<noteq> [] \<and> ''09:00-17:00'' \<noteq> ''closed'' \<and>
             parse_hours ''09:00-17:00'' =
               Some (\<lparr>hour = 9, minute = 0, second = 0, microsecond = 0\<rparr>,
                     \<lparr>hour = 17, minute = 0, second = 0, microsecond = 0\<rparr>)"
    by code_simp
  have early: "\<not> (minute_of_day \<lparr>hour = 9, minute = 0, second = 0, microsecond = 0\<rparr>
                    \<le> 1064439840 mod 1440 \<and>
                  1064439840 mod 1440
                    \<le> minute_of_day \<lparr>hour = 17, minute = 0, second = 0, microsecond = 0\<rparr>)"
    by code_simp
  have req: "parse_datetime (ad_date (booking ''2024-11-04'' ''08:00'' (Some ''haircut'')))
               (ad_time (booking ''2024-11-04'' ''08:00'' (Some ''haircut''))) =
             Inr \<lparr>dt_date = \<lparr>year = 2024, month = 11, day = 4\<rparr>,
                   dt_time = \<lparr>hour = 8, minute = 0, second = 0, microsecond = 0\<rparr>\<rparr> \<and>
             get_service_duration (appointment_types salon)
               (ad_service (booking ''2024-11-04'' ''08:00'' (Some ''haircut''))) = Inr 30 \<and>
             instant_of \<lparr>dt_date = \<lparr>year = 2024, month = 11, day = 4\<rparr>,
                   dt_time = \<lparr>hour = 8, minute = 0, second = 0, microsecond = 0\<rparr>\<rparr> = 1064439840"
    by code_simp
  have j: "journal (store_of [row_of 1 ''salon'' ''Bob'' ''777'' ''Cut'' 1064439960 1064439990]) = []"
    by code_simp
  have a: "\<not> is_within_business_hours salon 1064447160"
    using business_hours_gate [of salon 1064447160] sat by blast
  have b: "\<not> is_within_business_hours salon 1064439840"
    using business_hours_gate
            [of salon 1064439840 "''09:00-17:00''"
                "\<lparr>hour = 9, minute = 0, second = 0, microsecond = 0\<rparr>"
                "\<lparr>hour = 17, minute = 0, second = 0, microsecond = 0\<rparr>"] mon early
    by blast
  show ?thesis
    using business_hours_gate
            [of salon 1064439840 "''09:00-17:00''"
                "\<lparr>hour = 9, minute = 0, second = 0, microsecond = 0\<rparr>"
                "\<lparr>hour = 17, minute = 0, second = 0, microsecond = 0\<rparr>"
                "booking ''2024-11-04'' ''08:00'' (Some ''haircut'')"
                "\<lparr>dt_date = \<lparr>year = 2024, month = 11, day = 4\<rparr>,
                  dt_time = \<lparr>hour = 8, minute = 0, second = 0, microsecond = 0\<rparr>\<rparr>"
                30 "store_of [row_of 1 ''salon'' ''Bob'' ''777'' ''Cut'' 1064439960 1064439990]"]
          a b req j
    by simp
qed

section \<open>A booking without a service\<close>





section \<open>The conflict test\<close>





section \<open>A request that conflicts\<close>





section \<open>Two requests for the same slot\<close>





section \<open>The search for alternatives\<close>

text \<open>
  C5 (as amended). For every requested instant, service duration and store, every
  alternative returned is rendered from its instant, overlaps no confirmed appointment
  of the business, and lies on one of the seven days from the requested date, a day
  whose hours entry parses: its start is the opening time plus a multiple of 30 minutes,
  and start plus duration is at or before closing. At most five alternatives are
  collected, and when five are collected the last conflict query sent is the one that
  found the fifth. When the duration is not negative, each alternative falls on the
  calendar day whose window it was found in, and the alternatives are in non-decreasing
  chronological order.
\<close>

theorem alternatives_found:
  "(\<forall>a\<in>set (fst (find_alternative_times cfg requested d bid st)).
      formatted a = format_datetime (alt_datetime a) \<and>
      (\<forall>r\<in>set (appointments st).
         Some (business_id r) = bid \<and> status r = ''confirmed'' \<longrightarrow>
         \<not> intervals_overlap (start_time r) (end_time r) (alt_datetime a) (alt_datetime a + d)) \<and>
      (\<exists>k<7. \<exists>n h open_hour close_hour.
         business_hours cfg (day_name_of (requested div 1440 + int k)) = Some h \<and>
         h \<noteq> [] \<and> h \<noteq> ''closed'' \<and> parse_hours h = Some (open_hour, close_hour) \<and>
         alt_datetime a =
           (requested div 1440 + int k) * 1440 + minute_of_day open_hour + 30 * int n \<and>
         alt_datetime a + d \<le> (requested div 1440 + int k) * 1440 + minute_of_day close_hour \<and>
         (0 \<le> d \<longrightarrow>
            alt_datetime a div 1440 = requested div 1440 + int k \<and>
            minute_of_day open_hour \<le> alt_datetime a mod 1440 \<and>
            alt_datetime a mod 1440 + d \<le> minute_of_day close_hour))) \<and>
   length (fst (find_alternative_times cfg requested d bid st)) \<le> 5 \<and>
   (length (fst (find_alternative_times cfg requested d bid st)) = 5 \<longrightarrow>
      last (journal (snd (find_alternative_times cfg requested d bid st))) =
        Select_conflict bid
          (alt_datetime (last (fst (find_alternative_times cfg requested d bid st))))
          (alt_datetime (last (fst (find_alternative_times cfg requested d bid st))) + d)) \<and>
   (0 \<le> d \<longrightarrow> sorted (map alt_datetime (fst (find_alternative_times cfg requested d bid st))))"
proof (intro conjI)
  show "\<forall>a\<in>set (fst (find_alternative_times cfg requested d bid st)).
      formatted a = format_datetime (alt_datetime a) \<and>
      (\<forall>r\<in>set (appointments st).
         Some (business_id r) = bid \<and> status r = ''confirmed'' \<longrightarrow>
         \<not> intervals_overlap (start_time r) (end_time r) (alt_datetime a) (alt_datetime a + d)) \<and>
      (\<exists>k<7. \<exists>n h open_hour close_hour.
         business_hours cfg (day_name_of (requested div 1440 + int k)) = Some h \<and>
         h \<noteq> [] \<and> h \<noteq> ''closed'' \<and> parse_hours h = Some (open_hour, close_hour) \<and>
         alt_datetime a =
           (requested div 1440 + int k) * 1440 + minute_of_day open_hour + 30 * int n \<and>
         alt_datetime a + d \<le> (requested div 1440 + int k) * 1440 + minute_of_day close_hour \<and>
         (0 \<le> d \<longrightarrow>
            alt_datetime a div 1440 = requested div 1440 + int k \<and>
            minute_of_day open_hour \<le> alt_datetime a mod 1440 \<and>
            alt_datetime a mod 1440 + d \<le> minute_of_day close_hour))"
  proof
    fix a assume "a \<in> set (fst (find_alternative_times cfg requested d bid st))"
    then have a: "a \<in> set (fst (days_loop cfg (requested div 1440) d bid [0..<7] [] st))"
      by (simp add: find_alternative_times_def)
    from days_loop_new [of cfg "requested div 1440" d bid "[0..<7]" "[]" st] obtain new where
      n: "fst (days_loop cfg (requested div 1440) d bid [0..<7] [] st) = [] @ new"
         "set new \<subseteq> candidate `
            (\<Union>k\<in>set [0..<7]. day_slots cfg (requested div 1440) d bid (appointments st) k)"
      by blast
    from a n obtain t k where
      t: "a = candidate t" "k \<in> set [0..<7]"
         "t \<in> day_slots cfg (requested div 1440) d bid (appointments st) k"
      by auto
    from day_slots_member [OF t(3)] obtain n h op cl where
      m: "business_hours cfg (day_name_of (requested div 1440 + int k)) = Some h" "h \<noteq> []"
         "h \<noteq> ''closed''" "parse_hours h = Some (op, cl)"
         "t = (requested div 1440 + int k) * 1440 + minute_of_day op + 30 * int n"
         "t + d \<le> (requested div 1440 + int k) * 1440 + minute_of_day cl"
         "\<forall>r\<in>set (appointments st). \<not> conflicts bid t (t + d) r"
         "0 \<le> d \<longrightarrow> t div 1440 = requested div 1440 + int k \<and> minute_of_day op \<le> t mod 1440 \<and>
                         t mod 1440 + d \<le> minute_of_day cl"
      by blast
    have p1: "formatted a = format_datetime (alt_datetime a)"
      using t(1) by (simp add: candidate_def)
    have p2: "\<forall>r\<in>set (appointments st).
           Some (business_id r) = bid \<and> status r = ''confirmed'' \<longrightarrow>
           \<not> intervals_overlap (start_time r) (end_time r) (alt_datetime a) (alt_datetime a + d)"
      using m(7) t(1) free_means_no_overlap [of bid t "t + d"] by simp
    have k7: "k < 7" using t(2) by simp
    have "business_hours cfg (day_name_of (requested div 1440 + int k)) = Some h \<and>
           h \<noteq> [] \<and> h \<noteq> ''closed'' \<and> parse_hours h = Some (op, cl) \<and>
           alt_datetime a =
             (requested div 1440 + int k) * 1440 + minute_of_day op + 30 * int n \<and>
           alt_datetime a + d \<le> (requested div 1440 + int k) * 1440 + minute_of_day cl \<and>
           (0 \<le> d \<longrightarrow>
              alt_datetime a div 1440 = requested div 1440 + int k \<and>
              minute_of_day op \<le> alt_datetime a mod 1440 \<and>
              alt_datetime a mod 1440 + d \<le> minute_of_day cl)"
      using m t(1) by simp
    then have p3: "\<exists>k<7. \<exists>n h open_hour close_hour.
           business_hours cfg (day_name_of (requested div 1440 + int k)) = Some h \<and>
           h \<noteq> [] \<and> h \<noteq> ''closed'' \<and> parse_hours h = Some (open_hour, close_hour) \<and>
           alt_datetime a =
             (requested div 1440 + int k) * 1440 + minute_of_day open_hour + 30 * int n \<and>
           alt_datetime a + d \<le> (requested div 1440 + int k) * 1440 + minute_of_day close_hour \<and>
           (0 \<le> d \<longrightarrow>
              alt_datetime a div 1440 = requested div 1440 + int k \<and>
              minute_of_day open_hour \<le> alt_datetime a mod 1440 \<and>
              alt_datetime a mod 1440 + d \<le> minute_of_day close_hour)"
      apply -
      apply (rule exI [of _ k])
      apply (rule conjI [OF k7])
      apply (rule exI [of _ n])
      apply (rule exI [of _ h])
      apply (rule exI [of _ op])
      apply (rule exI [of _ cl])
      apply assumption
      done
    show "formatted a = format_datetime (alt_datetime a) \<and>
      (\<forall>r\<in>set (appointments st).
         Some (business_id r) = bid \<and> status r = ''confirmed'' \<longrightarrow>
         \<not> intervals_overlap (start_time r) (end_time r) (alt_datetime a) (alt_datetime a + d)) \<and>
      (\<exists>k<7. \<exists>n h open_hour close_hour.
         business_hours cfg (day_name_of (requested div 1440 + int k)) = Some h \<and>
         h \<noteq> [] \<and> h \<noteq> ''closed'' \<and> parse_hours h = Some (open_hour, close_hour) \<and>
         alt_datetime a =
           (requested div 1440 + int k) * 1440 + minute_of_day open_hour + 30 * int n \<and>
         alt_datetime a + d \<le> (requested div 1440 + int k) * 1440 + minute_of_day close_hour \<and>
         (0 \<le> d \<longrightarrow>
            alt_datetime a div 1440 = requested div 1440 + int k \<and>
            minute_of_day open_hour \<le> alt_datetime a mod 1440 \<and>
            alt_datetime a mod 1440 + d \<le> minute_of_day close_hour))"
      using p1 p2 p3 by (intro conjI)
  qed
next
  show "length (fst (find_alternative_times cfg requested d bid st)) \<le> 5"
    by (rule find_alternative_times_length)
next
  show "length (fst (find_alternative_times cfg requested d bid st)) = 5 \<longrightarrow>
      last (journal (snd (find_alternative_times cfg requested d bid st))) =
        Select_conflict bid
          (alt_datetime (last (fst (find_alternative_times cfg requested d bid st))))
          (alt_datetime (last (fst (find_alternative_times cfg requested d bid st))) + d)"
    using days_loop_last_query [of "[]" cfg "requested div 1440" d bid "[0..<7]" st]
    by (simp add: find_alternative_times_def)
next
  show "0 \<le> d \<longrightarrow> sorted (map alt_datetime (fst (find_alternative_times cfg requested d bid st)))"
  proof
    assume d: "0 \<le> d"
    have "sorted_wrt (<)
            (map alt_datetime (fst (days_loop cfg (requested div 1440) d bid [0..<7] [] st)))"
      by (rule days_loop_sorted [OF d]) simp_all
    then show "sorted (map alt_datetime (fst (find_alternative_times cfg requested d bid st)))"
      by (simp add: find_alternative_times_def strict_sorted_imp_sorted)
  qed
qed


theorem alternatives_found_witness:
  "map alt_datetime
     (fst (find_alternative_times salon 1064439960 30 (Some ''salon'')
        (store_of [row_of 1 ''salon'' ''Bob'' ''777'' ''Cut'' 1064439960 1064439990]))) =
     [1064439900, 1064439930, 1064439990, 1064440020, 1064440050] \<and>
   sorted [1064439900, 1064439930, 1064439990, 1064440020, 1064440050 :: int] \<and>
   \<not> intervals_overlap 1064439960 1064439990 1064439900 (1064439900 + 30) \<and>
   last (journal (snd (find_alternative_times salon 1064439960 30 (Some ''salon'')
        (store_of [row_of 1 ''salon'' ''Bob'' ''777'' ''Cut'' 1064439960 1064439990])))) =
     Select_conflict (Some ''salon'') 1064440050 (1064440050 + 30)"
proof -
  let ?st = "store_of [row_of 1 ''salon'' ''Bob'' ''777'' ''Cut'' 1064439960 1064439990]"
  let ?row = "row_of 1 ''salon'' ''Bob'' ''777'' ''Cut'' 1064439960 1064439990"
  let ?found = "find_alternative_times salon 1064439960 30 (Some ''salon'') ?st"
  have alts: "fst ?found =
                [candidate 1064439900, candidate 1064439930, candidate 1064439990,
                 candidate 1064440020, candidate 1064440050]"
    by code_simp
  have times: "map alt_datetime (fst ?found) =
                 [1064439900, 1064439930, 1064439990, 1064440020, 1064440050]"
    unfolding alts by simp
  have len: "length (fst ?found) = 5" unfolding alts by simp
  have lst: "alt_datetime (last (fst ?found)) = 1064440050" unfolding alts by simp
  have mem: "candidate 1064439900 \<in> set (fst ?found)" unfolding alts by simp
  have row: "?row \<in> set (appointments ?st) \<and> Some (business_id ?row) = Some ''salon'' \<and>
             status ?row = ''confirmed'' \<and> start_time ?row = 1064439960 \<and>
             end_time ?row = 1064439990"
    by code_simp
  note inst = alternatives_found [of salon 1064439960 30 "Some ''salon''" ?st]
  have s: "sorted (map alt_datetime (fst ?found))" using inst by simp
  have q: "last (journal (snd ?found)) =
             Select_conflict (Some ''salon'') (alt_datetime (last (fst ?found)))
               (alt_datetime (last (fst ?found)) + 30)"
    using inst len by blast
  have "\<forall>r\<in>set (appointments ?st).
          Some (business_id r) = Some ''salon'' \<and> status r = ''confirmed'' \<longrightarrow>
          \<not> intervals_overlap (start_time r) (end_time r) (alt_datetime (candidate 1064439900))
               (alt_datetime (candidate 1064439900) + 30)"
    using inst mem by blast
  then have "\<not> intervals_overlap (start_time ?row) (end_time ?row)
                 (alt_datetime (candidate 1064439900)) (alt_datetime (candidate 1064439900) + 30)"
    using row by blast
  then have o: "\<not> intervals_overlap 1064439960 1064439990 1064439900 (1064439900 + 30)"
    using row by simp
  show ?thesis using times s q lst o by simp
qed

text \<open>
  The claim as first stated fails for a negative duration: a window then reaches past
  midnight, and a candidate of Monday's scan lies after one of Tuesday's.
\<close>

theorem alternatives_found_counterexample:
  "map alt_datetime
     (fst (find_alternative_times odd_hours_salon 1064439960 (- 1470) (Some ''salon'')
        (store_of [row_of 1 ''salon'' ''Bob'' ''777'' ''Cut'' 1064438400 1064439885]))) =
     [1064441370, 1064441355, 1064441385, 1064441415, 1064441445] \<and>
   \<not> sorted [1064441370, 1064441355, 1064441385, 1064441415, 1064441445 :: int]"
  by code_simp


end
